theory Spec2Isabelle
  imports Complex_Main
begin

section \<open>Data model: pandas tables as used by \<^verbatim>\<open>app.py\<close>\<close>

text \<open>
  \<^verbatim>\<open>app.py\<close> reads one sheet of a workbook into a pandas DataFrame, cleans it in
  \<^verbatim>\<open>get_table_data\<close> and derives chart data (\<^verbatim>\<open>create_visualizations\<close>) and
  summary statistics (\<^verbatim>\<open>get_basic_statistics\<close>) from it.

  A DataFrame is modelled as the list of its columns. A column has a label, a dtype and
  its cells. The model follows pandas 1.x/2.x, the line the program is written for (it
  recognises text columns by \<^verbatim>\<open>dtype == 'object'\<close>):
  \<^item> a number is an integer, a finite float or the float NaN, which is also the marker
    of a missing cell. Finite floats are idealised as real numbers: binary rounding of
    float64 arithmetic is not modelled;
  \<^item> a cell of an \<^verbatim>\<open>object\<close> column is a Python \<^verbatim>\<open>str\<close>, a number, or another
    object (a boolean, a date), which is represented by the text \<^verbatim>\<open>str()\<close> gives for it;
  \<^item> the dtypes are \<^verbatim>\<open>object\<close>, \<^verbatim>\<open>int64\<close> and \<^verbatim>\<open>float64\<close>;
  \<^item> a column label is a string, or a number when the header cell of the sheet holds a
    number (\<^verbatim>\<open>read_excel\<close> keeps it as an \<^verbatim>\<open>int\<close>).
  Labels are taken to be distinct, as \<^verbatim>\<open>read_excel\<close> delivers them, so that
  \<^verbatim>\<open>df[col]\<close> is one column and \<^verbatim>\<open>for col in df.columns: df[col] = ...\<close> visits every
  column once, in order.
\<close>

datatype number = I int | F real | NaN

datatype cell = Str string | Num number | Obj string

datatype dtype = Object | Int64 | Float64

datatype label = Lbl string | IntLbl int

record column =
  label :: label
  dtype :: dtype
  cells :: "cell list"

type_synonym table = "column list"

datatype exn = AttributeError | ValueError | KeyError

text \<open>
  Two conversions between text and numbers belong to Python and pandas and not to the
  program: how one string is parsed by \<^verbatim>\<open>pd.to_numeric\<close> (\<open>None\<close> when it is not a
  number; \<^verbatim>\<open>''\<close> and \<^verbatim>\<open>'nan'\<close> parse to NaN), and the text \<^verbatim>\<open>str()\<close> gives for a
  float. They are parameters of the model, so every general theorem below holds for any
  choice of them.
\<close>

record pylib =
  to_num :: "string \<Rightarrow> number option"
  float_str :: "real \<Rightarrow> string"


subsection \<open>Python strings\<close>

definition digit_char :: "nat \<Rightarrow> char" where
  "digit_char d = ''0123456789'' ! d"

function nat_str :: "nat \<Rightarrow> string" where
  "nat_str n = (if n < 10 then [digit_char n] else nat_str (n div 10) @ [digit_char (n mod 10)])"
  by pat_completeness auto
termination
  by (relation "measure id") auto

declare nat_str.simps [simp del]

definition int_str :: "int \<Rightarrow> string" where
  \<comment> \<open>\<^verbatim>\<open>str(i)\<close> for a Python int.\<close>
  "int_str i = (if i < 0 then CHR ''-'' # nat_str (nat (- i)) else nat_str (nat i))"

fun py_str :: "pylib \<Rightarrow> cell \<Rightarrow> string" where
  \<comment> \<open>\<^verbatim>\<open>str(x)\<close> for the value in a cell.\<close>
  "py_str L (Str s) = s"
| "py_str L (Num (I i)) = int_str i"
| "py_str L (Num (F r)) = float_str L r"
| "py_str L (Num NaN) = ''nan''"
| "py_str L (Obj s) = s"

definition lower_char :: "char \<Rightarrow> char" where
  "lower_char c =
     (case map_of (zip ''ABCDEFGHIJKLMNOPQRSTUVWXYZ'' ''abcdefghijklmnopqrstuvwxyz'') c of
        Some d \<Rightarrow> d
      | None \<Rightarrow> c)"

definition py_lower :: "string \<Rightarrow> string" where
  \<comment> \<open>\<^verbatim>\<open>s.lower()\<close>. A Python string is modelled by its UTF-8 bytes; the letters
      outside ASCII are left as they are, which does not change any comparison with
      \<^verbatim>\<open>'code'\<close> or \<^verbatim>\<open>'total'\<close> (no character outside ASCII lowercases to one of
      their letters).\<close>
  "py_lower s = map lower_char s"

definition whitespace :: "string list" where
  \<comment> \<open>The characters \<^verbatim>\<open>str.strip()\<close> removes, in UTF-8: U+0009 to U+000D, U+001C to
      U+0020, U+0085, U+00A0, U+1680, U+2000 to U+200A, U+2028, U+2029, U+202F, U+205F
      and U+3000.\<close>
  "whitespace =
     [[CHR 0x09], [CHR 0x0A], [CHR 0x0B], [CHR 0x0C], [CHR 0x0D],
      [CHR 0x1C], [CHR 0x1D], [CHR 0x1E], [CHR 0x1F], [CHR 0x20],
      [CHR 0xC2, CHR 0x85], [CHR 0xC2, CHR 0xA0],
      [CHR 0xE1, CHR 0x9A, CHR 0x80],
      [CHR 0xE2, CHR 0x80, CHR 0x80], [CHR 0xE2, CHR 0x80, CHR 0x81],
      [CHR 0xE2, CHR 0x80, CHR 0x82], [CHR 0xE2, CHR 0x80, CHR 0x83],
      [CHR 0xE2, CHR 0x80, CHR 0x84], [CHR 0xE2, CHR 0x80, CHR 0x85],
      [CHR 0xE2, CHR 0x80, CHR 0x86], [CHR 0xE2, CHR 0x80, CHR 0x87],
      [CHR 0xE2, CHR 0x80, CHR 0x88], [CHR 0xE2, CHR 0x80, CHR 0x89],
      [CHR 0xE2, CHR 0x80, CHR 0x8A],
      [CHR 0xE2, CHR 0x80, CHR 0xA8], [CHR 0xE2, CHR 0x80, CHR 0xA9],
      [CHR 0xE2, CHR 0x80, CHR 0xAF], [CHR 0xE2, CHR 0x81, CHR 0x9F],
      [CHR 0xE3, CHR 0x80, CHR 0x80]]"

fun strip_front :: "string list \<Rightarrow> string \<Rightarrow> string" where
  \<comment> \<open>Removes the leading characters that are among \<open>ws\<close>.\<close>
  "strip_front ws [] = []"
| "strip_front ws (c # cs) =
     (case List.find (\<lambda>w. w \<noteq> [] \<and> take (length w) (c # cs) = w) ws of
        None \<Rightarrow> c # cs
      | Some w \<Rightarrow> strip_front ws (drop (length w - 1) cs))"

definition py_strip :: "string \<Rightarrow> string" where
  \<comment> \<open>\<^verbatim>\<open>s.strip()\<close>: the whitespace at both ends is removed. At the end of a string
      of well-formed UTF-8 the bytes of a whitespace character are that character.\<close>
  "py_strip s = rev (strip_front (map rev whitespace) (rev (strip_front whitespace s)))"

definition remove_char :: "char \<Rightarrow> string \<Rightarrow> string" where
  \<comment> \<open>\<^verbatim>\<open>s.replace(ch, '')\<close> for a one-character pattern.\<close>
  "remove_char ch s = filter (\<lambda>x. x \<noteq> ch) s"


subsection \<open>Series operations\<close>

definition astype_str :: "pylib \<Rightarrow> cell list \<Rightarrow> cell list" where
  \<comment> \<open>\<^verbatim>\<open>series.astype(str)\<close>: every element becomes its \<^verbatim>\<open>str()\<close>; a missing cell
      becomes the text \<^verbatim>\<open>'nan'\<close>.\<close>
  "astype_str L cs = map (\<lambda>c. Str (py_str L c)) cs"

fun str_elem :: "(string \<Rightarrow> string) \<Rightarrow> cell \<Rightarrow> cell" where
  \<comment> \<open>An element-wise \<^verbatim>\<open>.str\<close> method: it applies to the strings and gives NaN for
      any other element.\<close>
  "str_elem f (Str s) = Str (f s)"
| "str_elem f c = Num NaN"

definition str_replace :: "char \<Rightarrow> cell list \<Rightarrow> cell list" where
  \<comment> \<open>\<^verbatim>\<open>series.str.replace(ch, '')\<close>.\<close>
  "str_replace ch cs = map (str_elem (remove_char ch)) cs"

fun num_elem :: "pylib \<Rightarrow> cell \<Rightarrow> number option" where
  \<comment> \<open>What \<^verbatim>\<open>pd.to_numeric\<close> makes of one element of an object series.\<close>
  "num_elem L (Str s) = to_num L s"
| "num_elem L (Num n) = Some n"
| "num_elem L (Obj s) = None"

fun is_int :: "number \<Rightarrow> bool" where
  "is_int (I i) = True"
| "is_int n = False"

fun to_float :: "number \<Rightarrow> number" where
  "to_float (I i) = F (real_of_int i)"
| "to_float n = n"

definition pack :: "number list \<Rightarrow> dtype \<times> cell list" where
  \<comment> \<open>The array \<^verbatim>\<open>pd.to_numeric\<close> returns: int64 when every value is an integer,
      float64 otherwise, the integers cast to floats.\<close>
  "pack ns = (if list_all is_int ns then (Int64, map Num ns)
              else (Float64, map (\<lambda>n. Num (to_float n)) ns))"

fun parse_all :: "pylib \<Rightarrow> cell list \<Rightarrow> number list option" where
  "parse_all L [] = Some []"
| "parse_all L (c # cs) =
     (case num_elem L c of
        None \<Rightarrow> None
      | Some n \<Rightarrow> (case parse_all L cs of None \<Rightarrow> None | Some ns \<Rightarrow> Some (n # ns)))"

definition to_numeric :: "pylib \<Rightarrow> cell list \<Rightarrow> exn + dtype \<times> cell list" where
  \<comment> \<open>\<^verbatim>\<open>pd.to_numeric(series)\<close>, \<^verbatim>\<open>errors='raise'\<close>: one element that does not parse
      raises ValueError.\<close>
  "to_numeric L cs = (case parse_all L cs of None \<Rightarrow> Inl ValueError | Some ns \<Rightarrow> Inr (pack ns))"

definition to_numeric_coerce :: "pylib \<Rightarrow> cell list \<Rightarrow> dtype \<times> cell list" where
  \<comment> \<open>\<^verbatim>\<open>pd.to_numeric(series, errors='coerce')\<close>: an element that does not parse becomes
      NaN.\<close>
  "to_numeric_coerce L cs =
     pack (map (\<lambda>c. case num_elem L c of None \<Rightarrow> NaN | Some n \<Rightarrow> n) cs)"

definition is_numeric_dtype :: "dtype \<Rightarrow> bool" where
  \<comment> \<open>\<^verbatim>\<open>pd.api.types.is_numeric_dtype\<close>.\<close>
  "is_numeric_dtype d = (d = Int64 \<or> d = Float64)"

fun notna :: "cell \<Rightarrow> bool" where
  "notna (Num NaN) = False"
| "notna c = True"


subsection \<open>DataFrame operations\<close>

definition df_empty :: "table \<Rightarrow> bool" where
  \<comment> \<open>\<^verbatim>\<open>df.empty\<close>: no column, or no row.\<close>
  "df_empty df = (case df of [] \<Rightarrow> True | c # _ \<Rightarrow> cells c = [])"

definition columns :: "table \<Rightarrow> label list" where
  "columns df = map label df"

fun get_col :: "table \<Rightarrow> label \<Rightarrow> column option" where
  \<comment> \<open>\<^verbatim>\<open>df[l]\<close>.\<close>
  "get_col [] l = None"
| "get_col (c # cs) l = (if label c = l then Some c else get_col cs l)"

fun select :: "bool list \<Rightarrow> 'a list \<Rightarrow> 'a list" where
  \<comment> \<open>The elements of a series where a boolean mask holds.\<close>
  "select (m # ms) (x # xs) = (if m then x # select ms xs else select ms xs)"
| "select ms xs = []"

definition select_rows :: "bool list \<Rightarrow> table \<Rightarrow> table" where
  \<comment> \<open>\<^verbatim>\<open>df[mask]\<close>: the rows where the mask holds, in every column.\<close>
  "select_rows bm df = map (\<lambda>c. c\<lparr>cells := select bm (cells c)\<rparr>) df"

definition set_col :: "label \<Rightarrow> dtype \<times> cell list \<Rightarrow> table \<Rightarrow> table" where
  \<comment> \<open>\<^verbatim>\<open>df[l] = series\<close> for a column that exists.\<close>
  "set_col l s df = map (\<lambda>c. if label c = l then c\<lparr>dtype := fst s, cells := snd s\<rparr> else c) df"

fun set_where :: "bool list \<Rightarrow> cell \<Rightarrow> cell list \<Rightarrow> cell list" where
  "set_where (m # ms) v (c # cs) = (if m then v else c) # set_where ms v cs"
| "set_where ms v cs = cs"

definition loc_set :: "bool list \<Rightarrow> label \<Rightarrow> cell \<Rightarrow> table \<Rightarrow> table" where
  \<comment> \<open>\<^verbatim>\<open>df.loc[mask, l] = v\<close> for a string \<open>v\<close>: the cells of column \<open>l\<close> where the mask
      holds are overwritten. Writing a string into a numeric column turns it into an
      object column that keeps its other values as they are.\<close>
  "loc_set bm l v df =
     map (\<lambda>c. if label c = l
               then c\<lparr>dtype := (if True \<in> set bm then Object else dtype c),
                      cells := set_where bm v (cells c)\<rparr>
               else c) df"


section \<open>Cleaning (\<^verbatim>\<open>get_table_data\<close>, lines 204 to 218)\<close>

fun lower_label :: "label \<Rightarrow> exn + string" where
  \<comment> \<open>\<^verbatim>\<open>col.lower()\<close>: a label that is not a string has no such method.\<close>
  "lower_label (Lbl n) = Inr (py_lower n)"
| "lower_label (IntLbl i) = Inl AttributeError"

definition clean_column :: "pylib \<Rightarrow> column \<Rightarrow> exn + column" where
  \<comment> \<open>The body of the loop over the columns.\<close>
  "clean_column L c =
     (if dtype c = Object then
        (let c1 = c\<lparr>cells := astype_str L (cells c)\<rparr> in
         case lower_label (label c1) of
           Inl e \<Rightarrow> Inl e
         | Inr n \<Rightarrow>
             if n \<noteq> ''code'' then
               (let c2 = c1\<lparr>cells := str_replace (CHR ''%'') (str_replace (CHR '','') (cells c1))\<rparr> in
                case to_numeric L (cells c2) of
                  Inr s \<Rightarrow> Inr (c2\<lparr>dtype := fst s, cells := snd s\<rparr>)
                | Inl e \<Rightarrow> Inr c2)
             else Inr c1)
      else Inr c)"

fun clean_columns :: "pylib \<Rightarrow> table \<Rightarrow> exn + table" where
  \<comment> \<open>\<^verbatim>\<open>for col in df.columns: ...\<close>; the first exception ends the loop.\<close>
  "clean_columns L [] = Inr []"
| "clean_columns L (c # cs) =
     (case clean_column L c of
        Inl e \<Rightarrow> Inl e
      | Inr c' \<Rightarrow> (case clean_columns L cs of Inl e \<Rightarrow> Inl e | Inr cs' \<Rightarrow> Inr (c' # cs')))"

definition str_accessor :: "column \<Rightarrow> exn + cell list" where
  \<comment> \<open>\<^verbatim>\<open>series.str\<close>: pandas refuses the accessor on a column that is not an object
      column. (On an object column that holds no string at all pandas refuses it too;
      the loop above leaves only strings in object columns, so that case is not
      distinguished.)\<close>
  "str_accessor c = (if dtype c = Object then Inr (cells c) else Inl AttributeError)"

definition total_mask :: "cell list \<Rightarrow> bool list" where
  \<comment> \<open>\<^verbatim>\<open>series.str.strip().str.lower() == 'total'\<close>.\<close>
  "total_mask cs = map (\<lambda>c. str_elem py_lower (str_elem py_strip c) = Str ''total'') cs"

definition blank_total_codes :: "table \<Rightarrow> exn + table" where
  \<comment> \<open>Lines 216 to 218.\<close>
  "blank_total_codes df =
     (if Lbl ''Answer Categories'' \<in> set (columns df) \<and> Lbl ''Code'' \<in> set (columns df) then
        (case get_col df (Lbl ''Answer Categories'') of
           None \<Rightarrow> Inl KeyError
         | Some ac \<Rightarrow>
             (case str_accessor ac of
                Inl e \<Rightarrow> Inl e
              | Inr ss \<Rightarrow> Inr (loc_set (total_mask ss) (Lbl ''Code'') (Str '''') df)))
      else Inr df)"

definition clean :: "pylib \<Rightarrow> table \<Rightarrow> exn + table" where
  "clean L df = (case clean_columns L df of Inl e \<Rightarrow> Inl e | Inr df1 \<Rightarrow> blank_total_codes df1)"


section \<open>Chart data (\<^verbatim>\<open>create_visualizations\<close>)\<close>

text \<open>
  A chart specification keeps the series and the title; the entries that are the same
  for every table (the trace type, the colours, the margins and the axis titles) are left
  out. \<open>Pie values labels hole title\<close>, \<open>Box y title\<close>, \<open>Bar x y title\<close>.
\<close>

datatype chart =
    Pie "cell list" "cell list" real string
  | Box "cell list" string
  | Bar "cell list" "cell list" string

type_synonym visualizations = "string \<rightharpoonup> chart"

definition required_cols :: "label list" where
  "required_cols = [Lbl ''Answer Categories'', Lbl ''Weighted Frequency'']"

definition keep_mask :: "cell list \<Rightarrow> bool list" where
  \<comment> \<open>\<^verbatim>\<open>series.notna() & (series != 'Total')\<close>.\<close>
  "keep_mask cs = map (\<lambda>c. notna c \<and> c \<noteq> Str ''Total'') cs"

definition reparse :: "pylib \<Rightarrow> cell list \<Rightarrow> dtype \<times> cell list" where
  \<comment> \<open>Lines 87 to 90: \<^verbatim>\<open>pd.to_numeric(series.astype(str).str.replace(',', ''), errors='coerce')\<close>.\<close>
  "reparse L cs = to_numeric_coerce L (str_replace (CHR '','') (astype_str L cs))"

definition dropna :: "label \<Rightarrow> table \<Rightarrow> exn + table" where
  \<comment> \<open>\<^verbatim>\<open>df.dropna(subset=[l])\<close>.\<close>
  "dropna l df =
     (case get_col df l of
        None \<Rightarrow> Inl KeyError
      | Some c \<Rightarrow> Inr (select_rows (map notna (cells c)) df))"

definition prepare :: "pylib \<Rightarrow> table \<Rightarrow> exn + table" where
  \<comment> \<open>Lines 82 to 91: the rows that are charted.\<close>
  "prepare L df =
     (case get_col df (Lbl ''Answer Categories'') of
        None \<Rightarrow> Inl KeyError
      | Some ac \<Rightarrow>
          (let plot_df = select_rows (keep_mask (cells ac)) df in
           case get_col plot_df (Lbl ''Weighted Frequency'') of
             None \<Rightarrow> Inl KeyError
           | Some fr \<Rightarrow>
               dropna (Lbl ''Weighted Frequency'')
                 (set_col (Lbl ''Weighted Frequency'') (reparse L (cells fr)) plot_df)))"

definition charts :: "string \<Rightarrow> column \<Rightarrow> column \<Rightarrow> visualizations" where
  \<comment> \<open>Lines 96 to 149, for the two columns of the prepared table.\<close>
  "charts table_name ac fr =
     (let categories = cells ac;
          frequencies = cells fr;
          v1 = Map.empty(''pie_chart'' \<mapsto>
                 Pie frequencies categories (if length frequencies > 5 then 3 / 10 else 0)
                   (table_name @ '': Weighted Distribution''));
          v2 = (if is_numeric_dtype (dtype fr)
                then v1(''box_plot'' \<mapsto>
                       Box frequencies (table_name @ '': Weighted Frequency Distribution''))
                else v1)
      in v2(''bar_chart'' \<mapsto>
              Bar categories frequencies (table_name @ '': Weighted Frequency by Category'')))"

definition create_visualizations :: "pylib \<Rightarrow> table \<Rightarrow> string \<Rightarrow> visualizations" where
  \<comment> \<open>An exception inside the \<^verbatim>\<open>try\<close> block is caught and the entries built so far
      are returned; the lookups that could raise stand before the first entry.\<close>
  "create_visualizations L df table_name =
     (if df_empty df then Map.empty
      else if \<not> list_all (\<lambda>col. col \<in> set (columns df)) required_cols then Map.empty
      else
        (case prepare L df of
           Inl e \<Rightarrow> Map.empty
         | Inr plot_df \<Rightarrow>
             if df_empty plot_df then Map.empty
             else
               (case (get_col plot_df (Lbl ''Answer Categories''),
                      get_col plot_df (Lbl ''Weighted Frequency'')) of
                  (Some ac, Some fr) \<Rightarrow> charts table_name ac fr
                | _ \<Rightarrow> Map.empty)))"


section \<open>Summary statistics (\<^verbatim>\<open>get_basic_statistics\<close>)\<close>

fun num_val :: "number \<Rightarrow> real" where
  "num_val (I i) = real_of_int i"
| "num_val (F r) = r"
| "num_val NaN = 0"

fun present :: "cell list \<Rightarrow> number list" where
  \<comment> \<open>The values of a numeric series that are not missing: the pandas reductions skip
      NaN.\<close>
  "present [] = []"
| "present (Num NaN # cs) = present cs"
| "present (Num n # cs) = n # present cs"
| "present (c # cs) = present cs"

definition series_mean :: "cell list \<Rightarrow> number" where
  "series_mean cs =
     (let xs = map num_val (present cs)
      in if xs = [] then NaN else F (sum_list xs / real (length xs)))"

definition series_median :: "cell list \<Rightarrow> number" where
  "series_median cs =
     (let xs = sort (map num_val (present cs)); n = length xs
      in if n = 0 then NaN
         else if odd n then F (xs ! (n div 2))
         else F ((xs ! (n div 2 - 1) + xs ! (n div 2)) / 2))"

definition num_min :: "number \<Rightarrow> number \<Rightarrow> number" where
  "num_min a b = (if num_val b < num_val a then b else a)"

definition num_max :: "number \<Rightarrow> number \<Rightarrow> number" where
  "num_max a b = (if num_val a < num_val b then b else a)"

definition series_min :: "cell list \<Rightarrow> number" where
  \<comment> \<open>The smallest value, of the column's own type: an integer for an int64 column.\<close>
  "series_min cs = (case present cs of [] \<Rightarrow> NaN | n # ns \<Rightarrow> fold num_min ns n)"

definition series_max :: "cell list \<Rightarrow> number" where
  "series_max cs = (case present cs of [] \<Rightarrow> NaN | n # ns \<Rightarrow> fold num_max ns n)"

definition series_std :: "cell list \<Rightarrow> number" where
  \<comment> \<open>The sample standard deviation (\<^verbatim>\<open>ddof=1\<close>): NaN for fewer than two values.\<close>
  "series_std cs =
     (let xs = map num_val (present cs); n = length xs
      in if n < 2 then NaN
         else (let m = sum_list xs / real n
               in F (sqrt (sum_list (map (\<lambda>x. (x - m)\<^sup>2) xs) / real (n - 1)))))"

definition series_count :: "cell list \<Rightarrow> nat" where
  "series_count cs = length (present cs)"

definition rint :: "real \<Rightarrow> int" where
  \<comment> \<open>Rounding to the nearest integer, a tie to the even one.\<close>
  "rint x =
     (let f = \<lfloor>x\<rfloor>; d = x - of_int f
      in if d < 1 / 2 then f else if 1 / 2 < d then f + 1 else if even f then f else f + 1)"

fun round2 :: "number \<Rightarrow> number" where
  \<comment> \<open>\<^verbatim>\<open>round(x, 2)\<close>: an integer is returned as it is, NaN stays NaN.\<close>
  "round2 (I i) = I i"
| "round2 (F r) = F (of_int (rint (r * 100)) / 100)"
| "round2 NaN = NaN"

record stat_entry =
  mean :: number
  median :: number
  stat_min :: number
  stat_max :: number
  std :: number
  count :: nat

type_synonym stats = "label \<rightharpoonup> stat_entry"

definition describe :: "column \<Rightarrow> stat_entry" where
  \<comment> \<open>Lines 169 to 176.\<close>
  "describe c =
     \<lparr>mean = round2 (series_mean (cells c)),
      median = round2 (series_median (cells c)),
      stat_min = round2 (series_min (cells c)),
      stat_max = round2 (series_max (cells c)),
      std = round2 (series_std (cells c)),
      count = series_count (cells c)\<rparr>"

fun numeric_cols :: "table \<Rightarrow> exn + label list" where
  \<comment> \<open>Lines 164 to 166. \<^verbatim>\<open>and\<close> evaluates \<^verbatim>\<open>col.lower()\<close> for the numeric columns
      only.\<close>
  "numeric_cols [] = Inr []"
| "numeric_cols (c # cs) =
     (if is_numeric_dtype (dtype c) then
        (case lower_label (label c) of
           Inl e \<Rightarrow> Inl e
         | Inr n \<Rightarrow>
             (case numeric_cols cs of
                Inl e \<Rightarrow> Inl e
              | Inr ls \<Rightarrow> Inr (if n \<noteq> ''code'' then label c # ls else ls)))
      else numeric_cols cs)"

fun stats_loop :: "table \<Rightarrow> label list \<Rightarrow> stats \<Rightarrow> exn + stats" where
  \<comment> \<open>\<^verbatim>\<open>for col in numeric_cols: stats[col] = {...}\<close>.\<close>
  "stats_loop df [] st = Inr st"
| "stats_loop df (col # cols) st =
     (case get_col df col of
        None \<Rightarrow> Inl KeyError
      | Some c \<Rightarrow> stats_loop df cols (st(col \<mapsto> describe c)))"

definition get_basic_statistics :: "table \<Rightarrow> stats" where
  "get_basic_statistics df =
     (if df_empty df then Map.empty
      else
        (case numeric_cols df of
           Inl e \<Rightarrow> Map.empty
         | Inr cols \<Rightarrow>
             (case stats_loop df cols Map.empty of
                Inl e \<Rightarrow> Map.empty
              | Inr st \<Rightarrow> st)))"


section \<open>The request handler (\<^verbatim>\<open>get_table_data\<close>)\<close>

text \<open>
  The handler answers with an error object or with the cleaned table and what is derived
  from it. Rendering the table as HTML and serialising the answer are library calls and
  are not modelled: a successful answer carries the values handed to them.
\<close>

datatype failure = InvalidTableName | TableIsEmpty | Raised exn

datatype response = Failed failure | Succeeded table visualizations stats string

definition get_table_data ::
  "pylib \<Rightarrow> (string \<rightharpoonup> string) \<Rightarrow> (string \<Rightarrow> table) \<Rightarrow> string option \<Rightarrow> response" where
  \<comment> \<open>\<open>descriptions\<close> is \<^verbatim>\<open>TABLE_DESCRIPTIONS\<close>, \<open>load\<close> is \<^verbatim>\<open>_get_NGS_table\<close> and
      \<open>req\<close> is \<^verbatim>\<open>request.json.get('table_name')\<close>.\<close>
  "get_table_data L descriptions load req =
     (case req of
        None \<Rightarrow> Failed InvalidTableName
      | Some table_name \<Rightarrow>
          if table_name = [] \<or> descriptions table_name = None then Failed InvalidTableName
          else
            (let df = load table_name in
             if df_empty df then Failed TableIsEmpty
             else
               (case clean L df of
                  Inl e \<Rightarrow> Failed (Raised e)
                | Inr df' \<Rightarrow>
                    Succeeded df' (create_visualizations L df' table_name)
                      (get_basic_statistics df')
                      (case descriptions table_name of None \<Rightarrow> [] | Some d \<Rightarrow> d))))"


section \<open>A library instance and tables for the worked examples\<close>

text \<open>
  The closed examples below need one definite choice of the two library conversions.
  \<open>parse_decimal\<close> reads the plain decimal literals (an optional sign, digits, an optional
  fraction) and the two spellings of a missing value, \<^verbatim>\<open>''\<close> and \<^verbatim>\<open>'nan'\<close>; pandas
  reads further forms (exponents, infinities, blanks around the number), which no example
  uses. \<open>print_decimal\<close> prints a float in positional notation with at least one and at
  most seventeen digits after the point.
\<close>

fun digits_val :: "string \<Rightarrow> nat \<Rightarrow> nat option" where
  "digits_val [] acc = Some acc"
| "digits_val (c # cs) acc =
     (case map_of (zip ''0123456789'' [0, 1, 2, 3, 4, 5, 6, 7, 8, 9]) c of
        None \<Rightarrow> None
      | Some d \<Rightarrow> digits_val cs (10 * acc + d))"

definition unsigned_decimal :: "string \<Rightarrow> number option" where
  "unsigned_decimal s =
     (let ip = takeWhile (\<lambda>c. c \<noteq> CHR ''.'') s; rest = dropWhile (\<lambda>c. c \<noteq> CHR ''.'') s
      in if ip = [] then None
         else if rest = [] then map_option (\<lambda>n. I (int n)) (digits_val ip 0)
         else if tl rest = [] then None
         else map_option (\<lambda>n. F (real n / 10 ^ length (tl rest))) (digits_val (ip @ tl rest) 0))"

fun negate :: "number \<Rightarrow> number" where
  "negate (I i) = I (- i)"
| "negate (F r) = F (- r)"
| "negate NaN = NaN"

definition parse_decimal :: "string \<Rightarrow> number option" where
  "parse_decimal s =
     (if s = [] \<or> s = ''nan'' then Some NaN
      else if hd s = CHR ''-'' then map_option negate (unsigned_decimal (tl s))
      else if hd s = CHR ''+'' then unsigned_decimal (tl s)
      else unsigned_decimal s)"

fun frac_digits :: "nat \<Rightarrow> real \<Rightarrow> string" where
  "frac_digits 0 x = []"
| "frac_digits (Suc k) x =
     (let d = nat \<lfloor>10 * x\<rfloor>; y = 10 * x - real d
      in digit_char d # (if y = 0 then [] else frac_digits k y))"

definition print_decimal :: "real \<Rightarrow> string" where
  "print_decimal r =
     (let a = \<bar>r\<bar>; w = nat \<lfloor>a\<rfloor>
      in (if r < 0 then ''-'' else []) @ nat_str w @ ''.'' @ frac_digits 17 (a - real w))"

definition example_lib :: pylib where
  "example_lib = \<lparr>to_num = parse_decimal, float_str = print_decimal\<rparr>"



definition text_code_table :: table where
  "text_code_table =
     [\<lparr>label = Lbl ''Answer Categories'', dtype = Object, cells = [Str ''Yes'', Str '' TOTAL '']\<rparr>,
      \<lparr>label = Lbl ''Code'', dtype = Object, cells = [Str ''01'', Str ''99'']\<rparr>]"

definition text_code_cleaned :: table where
  "text_code_cleaned =
     [\<lparr>label = Lbl ''Answer Categories'', dtype = Object, cells = [Str ''Yes'', Str '' TOTAL '']\<rparr>,
      \<lparr>label = Lbl ''Code'', dtype = Object, cells = [Str ''01'', Str '''']\<rparr>]"

definition stripped :: "pylib \<Rightarrow> cell \<Rightarrow> string" where
  \<comment> \<open>The text of a cell with every \<^verbatim>\<open>,\<close> and \<^verbatim>\<open>%\<close> removed.\<close>
  "stripped L x = remove_char (CHR ''%'') (remove_char (CHR '','') (py_str L x))"

definition parses :: "pylib \<Rightarrow> cell \<Rightarrow> bool" where
  \<comment> \<open>The stripped text of the cell reads as a number.\<close>
  "parses L x = (to_num L (stripped L x) \<noteq> None)"

definition thousands_column :: column where
  "thousands_column =
     \<lparr>label = Lbl ''Weighted Frequency'', dtype = Object, cells = [Str ''1,000'', Str ''50%'']\<rparr>"

definition remarks_column :: column where
  "remarks_column = \<lparr>label = Lbl ''Share'', dtype = Object, cells = [Str ''12%'', Str ''n/a'']\<rparr>"

definition numeric_categories_table :: table where
  \<comment> \<open>A sheet whose answer categories are written as numbers in text cells.\<close>
  "numeric_categories_table =
     [\<lparr>label = Lbl ''Answer Categories'', dtype = Object, cells = [Str ''1'', Str ''2'']\<rparr>,
      \<lparr>label = Lbl ''Code'', dtype = Object, cells = [Str ''01'', Str ''02'']\<rparr>]"




definition rectangular :: "table \<Rightarrow> bool" where
  \<comment> \<open>Every column of a DataFrame has one cell per row.\<close>
  "rectangular df = (\<forall>c\<in>set df. \<forall>d\<in>set df. length (cells c) = length (cells d))"

definition charted_rows :: "pylib \<Rightarrow> cell list \<Rightarrow> cell list \<Rightarrow> (cell \<times> cell) list" where
  \<comment> \<open>The charted rows, described row by row from the categories and the frequencies: the
      rows whose category is missing or is \<^verbatim>\<open>'Total'\<close> are dropped, the frequencies of
      the others are read as numbers, and the rows whose frequency does not read as a
      number are dropped too.\<close>
  "charted_rows L cats freqs =
     (let kept = filter (\<lambda>(a, w). notna a \<and> a \<noteq> Str ''Total'') (zip cats freqs);
          nums = snd (reparse L (map snd kept))
      in filter (\<lambda>(a, v). notna v) (zip (map fst kept) nums))"

definition survey_table :: table where
  "survey_table =
     [\<lparr>label = Lbl ''Answer Categories'', dtype = Object,
        cells = [Str ''A'', Str ''B'', Str ''Total'']\<rparr>,
      \<lparr>label = Lbl ''Weighted Frequency'', dtype = Object,
        cells = [Str ''10'', Str ''20'', Str ''5'']\<rparr>]"

definition unparsable_table :: table where
  "unparsable_table =
     [\<lparr>label = Lbl ''Answer Categories'', dtype = Object, cells = [Str ''A'', Str ''B'']\<rparr>,
      \<lparr>label = Lbl ''Weighted Frequency'', dtype = Object, cells = [Str ''10'', Str ''abc'']\<rparr>]"

definition selected :: "column \<Rightarrow> bool" where
  \<comment> \<open>The column is numeric-typed and its name, lowercased, is not \<^verbatim>\<open>code\<close>.\<close>
  "selected c =
     (is_numeric_dtype (dtype c) \<and>
      (case label c of Lbl n \<Rightarrow> py_lower n \<noteq> ''code'' | IntLbl i \<Rightarrow> False))"

fun two_decimals :: "number \<Rightarrow> bool" where
  \<comment> \<open>The number has at most two decimal places.\<close>
  "two_decimals (F r) = (r * 100 = of_int \<lfloor>r * 100\<rfloor>)"
| "two_decimals n = True"

fun near :: "number \<Rightarrow> number \<Rightarrow> bool" where
  \<comment> \<open>\<open>near y x\<close>: \<open>y\<close> is \<open>x\<close> up to half a unit of the second decimal place.\<close>
  "near (F y) (F x) = (\<bar>y - x\<bar> \<le> 1 / 200)"
| "near y x = (y = x)"

fun is_value :: "cell \<Rightarrow> bool" where
  \<comment> \<open>The cell holds a number that is not missing.\<close>
  "is_value (Num NaN) = False"
| "is_value (Num n) = True"
| "is_value c = False"

definition int_column_table :: table where
  "int_column_table =
     [\<lparr>label = Lbl ''Value'', dtype = Int64, cells = [Num (I 1), Num (I 2), Num (I 3)]\<rparr>]"

definition float_column_table :: table where
  "float_column_table =
     [\<lparr>label = Lbl ''Value'', dtype = Float64, cells = [Num (F 1), Num (F 2), Num (F 3)]\<rparr>]"

definition year_label_table :: table where
  \<comment> \<open>A sheet with a number in a header cell.\<close>
  "year_label_table =
     [\<lparr>label = Lbl ''Value'', dtype = Int64, cells = [Num (I 1), Num (I 2), Num (I 3)]\<rparr>,
      \<lparr>label = IntLbl 2020, dtype = Int64, cells = [Num (I 4), Num (I 5), Num (I 6)]\<rparr>]"

definition coded_table :: table where
  "coded_table =
     [\<lparr>label = Lbl ''Code'', dtype = Int64, cells = [Num (I 1), Num (I 2)]\<rparr>,
      \<lparr>label = Lbl ''Share'', dtype = Float64, cells = [Num (F (25 / 2)), Num NaN]\<rparr>,
      \<lparr>label = Lbl ''Note'', dtype = Object, cells = [Str ''a'', Str ''b'']\<rparr>]"

definition padded_total_table :: table where
  \<comment> \<open>The Total row is written with a no-break space (U+00A0) after the word.\<close>
  "padded_total_table =
     [\<lparr>label = Lbl ''Answer Categories'', dtype = Object,
        cells = [Str ''Yes'', Str (''Total'' @ [CHR 0xC2, CHR 0xA0])]\<rparr>,
      \<lparr>label = Lbl ''Code'', dtype = Int64, cells = [Num (I 1), Num (I 2)]\<rparr>]"

definition year_text_column :: column where
  \<comment> \<open>A text column under a header cell that holds the number 2020.\<close>
  "year_text_column =
     \<lparr>label = IntLbl 2020, dtype = Object, cells = [Str ''1,000'', Str ''50%'']\<rparr>"

definition unsorted_table :: table where
  "unsorted_table =
     [\<lparr>label = Lbl ''Share'', dtype = Float64,
        cells = [Num (F 2), Num NaN, Num (F 1), Num (F 4), Num (F 2)]\<rparr>]"


section \<open>Facts about the cleaning loop and the Total row\<close>

lemma clean_column_label: "clean_column L c = Inr c' \<Longrightarrow> label c' = label c"
  by (auto simp: clean_column_def Let_def split: if_splits sum.splits)

lemma clean_columns_all2:
  "clean_columns L df = Inr df' \<Longrightarrow> list_all2 (\<lambda>c c'. clean_column L c = Inr c') df df'"
  by (induction df arbitrary: df') (auto split: sum.splits)

lemma clean_columns_nth:
  assumes "clean_columns L df = Inr df'" "i < length df"
  shows "length df' = length df" "clean_column L (df ! i) = Inr (df' ! i)"
  using clean_columns_all2 [OF assms(1)] assms(2)
  by (auto simp: list_all2_conv_all_nth)


lemma set_where_length [simp]: "length (set_where bm v cs) = length cs"
  by (induction bm v cs rule: set_where.induct) auto



lemma loc_set_length [simp]: "length (loc_set bm l v df) = length df"
  by (simp add: loc_set_def)

lemma loc_set_nth:
  "i < length df \<Longrightarrow> loc_set bm l v df ! i =
     (if label (df ! i) = l
      then (df ! i)\<lparr>dtype := (if True \<in> set bm then Object else dtype (df ! i)),
                    cells := set_where bm v (cells (df ! i))\<rparr>
      else df ! i)"
  by (simp add: loc_set_def)


lemma blank_total_codes_other:
  "blank_total_codes df = Inr df' \<Longrightarrow> i < length df \<Longrightarrow> label (df ! i) \<noteq> Lbl ''Code'' \<Longrightarrow>
   df' ! i = df ! i"
  by (auto simp: blank_total_codes_def loc_set_nth split: if_splits option.splits sum.splits)



lemma cleanE:
  assumes "clean L df = Inr df'"
  obtains df1 where "clean_columns L df = Inr df1" "blank_total_codes df1 = Inr df'"
  using assms by (auto simp: clean_def split: sum.splits)

lemma lower_Code: "py_lower ''Code'' = ''code''"
  by (simp add: py_lower_def lower_char_def)

lemma lower_Answer_Categories: "py_lower ''Answer Categories'' = ''answer categories''"
  by (simp add: py_lower_def lower_char_def)

lemma lower_Weighted_Frequency: "py_lower ''Weighted Frequency'' = ''weighted frequency''"
  by (simp add: py_lower_def lower_char_def)

lemma clean_text_code_table: "clean example_lib text_code_table = Inr text_code_cleaned"
  by (simp add: clean_def text_code_table_def text_code_cleaned_def clean_column_def
      lower_Code lower_Answer_Categories Let_def astype_str_def str_replace_def remove_char_def
      to_numeric_def example_lib_def parse_decimal_def unsigned_decimal_def
      blank_total_codes_def columns_def str_accessor_def total_mask_def loc_set_def
      py_strip_def whitespace_def py_lower_def lower_char_def)


section \<open>Value columns\<close>


lemma strip_series:
  "str_replace (CHR ''%'') (str_replace (CHR '','') (astype_str L cs)) = map (\<lambda>x. Str (stripped L x)) cs"
  by (simp add: str_replace_def astype_str_def stripped_def)

lemma parse_all_texts:
  "parse_all L (map (\<lambda>x. Str (stripped L x)) cs) =
     (if list_all (parses L) cs then Some (map (\<lambda>x. the (to_num L (stripped L x))) cs) else None)"
  by (induction cs) (auto simp: parses_def split: option.splits)

lemma pack_numeric: "is_numeric_dtype (fst (pack ns))"
  by (simp add: pack_def is_numeric_dtype_def)

lemma clean_column_value:
  assumes "dtype c = Object" "label c = Lbl n" "py_lower n \<noteq> ''code''"
  shows "clean_column L c =
     Inr (if list_all (parses L) (cells c)
          then c\<lparr>dtype := fst (pack (map (\<lambda>x. the (to_num L (stripped L x))) (cells c))),
                 cells := snd (pack (map (\<lambda>x. the (to_num L (stripped L x))) (cells c)))\<rparr>
          else c\<lparr>cells := map (\<lambda>x. Str (stripped L x)) (cells c)\<rparr>)"
  using assms
  by (simp add: clean_column_def Let_def strip_series to_numeric_def parse_all_texts)

lemma not_code_label: "py_lower n \<noteq> ''code'' \<Longrightarrow> Lbl n \<noteq> Lbl ''Code''"
  by (auto simp: lower_Code)

lemma clean_other_column:
  assumes "clean L df = Inr df'" "i < length df" "label (df ! i) \<noteq> Lbl ''Code''"
  shows "clean_column L (df ! i) = Inr (df' ! i)"
proof -
  from assms(1) obtain df1 where loop: "clean_columns L df = Inr df1"
    and blank: "blank_total_codes df1 = Inr df'"
    by (rule cleanE)
  have len: "length df1 = length df" and col: "clean_column L (df ! i) = Inr (df1 ! i)"
    using clean_columns_nth [OF loop assms(2)] by simp_all
  have "label (df1 ! i) \<noteq> Lbl ''Code''"
    using clean_column_label [OF col] assms(3) by simp
  then have "df' ! i = df1 ! i"
    using blank_total_codes_other [OF blank, of i] assms(2) len by simp
  with col show ?thesis by simp
qed


lemma clean_columns_columns: "clean_columns L df = Inr df1 \<Longrightarrow> columns df1 = columns df"
  using clean_columns_all2 [of L df df1]
  by (auto simp: columns_def list_all2_conv_all_nth clean_column_label intro!: nth_equalityI)

lemma clean_columns_get_col:
  "clean_columns L df = Inr df1 \<Longrightarrow> get_col df l = Some c \<Longrightarrow>
   \<exists>c'. get_col df1 l = Some c' \<and> clean_column L c = Inr c'"
proof (induction df arbitrary: df1)
  case Nil
  then show ?case by simp
next
  case (Cons a df)
  from Cons.prems(1) obtain a' df' where a': "clean_column L a = Inr a'"
    and df': "clean_columns L df = Inr df'" and df1: "df1 = a' # df'"
    by (auto split: sum.splits)
  show ?case
  proof (cases "label a = l")
    case True
    with Cons.prems(2) a' df1 clean_column_label [OF a'] show ?thesis by simp
  next
    case False
    with Cons.prems(2) have "get_col df l = Some c" by simp
    from Cons.IH [OF df' this] False df1 clean_column_label [OF a'] show ?thesis by simp
  qed
qed

lemma clean_columns_error: "clean_columns L df = Inl e \<Longrightarrow> e = AttributeError"
  by (induction df) (auto simp: clean_column_def Let_def split: sum.splits if_splits label.splits
      elim: lower_label.elims)

lemma clean_column_numeric:
  assumes "dtype c = Object \<longrightarrow> list_all (parses L) (cells c)" "label c = Lbl ''Answer Categories''"
    and "clean_column L c = Inr c'"
  shows "dtype c' \<noteq> Object"
proof (cases "dtype c = Object")
  case True
  with assms clean_column_value [OF True assms(2), of L] show ?thesis
    using pack_numeric [of "map (\<lambda>x. the (to_num L (stripped L x))) (cells c)"]
    by (auto simp: lower_Answer_Categories is_numeric_dtype_def)
next
  case False
  with assms(3) show ?thesis by (simp add: clean_column_def)
qed

text \<open>
  Claim C2, as amended. For a text-typed column whose name is a string and is not
  "code" in any case, the loop body
  raises nothing. It strips every \<^verbatim>\<open>,\<close> and \<^verbatim>\<open>%\<close> from the text of each value;
  the column becomes numeric exactly when every stripped value parses, and then holds
  the parsed numbers; otherwise it stays an object column that holds the stripped
  texts. The cleaned table holds this column at the same position.
\<close>

theorem value_column_cleaning:
  assumes "dtype c = Object" and "label c = Lbl n" and "py_lower n \<noteq> ''code''"
  shows "\<exists>c'. clean_column L c = Inr c' \<and> label c' = label c \<and>
           (is_numeric_dtype (dtype c') \<longleftrightarrow> list_all (parses L) (cells c)) \<and>
           (if list_all (parses L) (cells c)
            then (dtype c', cells c') = pack (map (\<lambda>x. the (to_num L (stripped L x))) (cells c))
            else dtype c' = Object \<and> cells c' = map (\<lambda>x. Str (stripped L x)) (cells c)) \<and>
           (\<forall>df df' i. clean L df = Inr df' \<and> i < length df \<and> df ! i = c \<longrightarrow> df' ! i = c')"
proof -
  let ?c' = "if list_all (parses L) (cells c)
          then c\<lparr>dtype := fst (pack (map (\<lambda>x. the (to_num L (stripped L x))) (cells c))),
                 cells := snd (pack (map (\<lambda>x. the (to_num L (stripped L x))) (cells c)))\<rparr>
          else c\<lparr>cells := map (\<lambda>x. Str (stripped L x)) (cells c)\<rparr>"
  have col: "clean_column L c = Inr ?c'"
    by (rule clean_column_value [OF assms])
  have lab: "label ?c' = label c" by simp
  have num: "is_numeric_dtype (dtype ?c') \<longleftrightarrow> list_all (parses L) (cells c)"
    using assms(1) by (simp add: pack_numeric) (simp add: is_numeric_dtype_def)
  have shape: "if list_all (parses L) (cells c)
            then (dtype ?c', cells ?c') = pack (map (\<lambda>x. the (to_num L (stripped L x))) (cells c))
            else dtype ?c' = Object \<and> cells ?c' = map (\<lambda>x. Str (stripped L x)) (cells c)"
    using assms(1) by simp
  have tab: "\<forall>df df' i. clean L df = Inr df' \<and> i < length df \<and> df ! i = c \<longrightarrow> df' ! i = ?c'"
  proof (intro allI impI, elim conjE)
    fix df df' i
    assume "clean L df = Inr df'" "i < length df" "df ! i = c"
    then have "clean_column L c = Inr (df' ! i)"
      using clean_other_column [of L df df' i] assms(2) not_code_label [OF assms(3)] by simp
    with col show "df' ! i = ?c'" by simp
  qed
  from col lab num shape tab show ?thesis by blast
qed

theorem value_column_cleaning_witness:
  "dtype thousands_column = Object \<and> label thousands_column = Lbl ''Weighted Frequency'' \<and>
   py_lower ''Weighted Frequency'' \<noteq> ''code'' \<and>
   list_all (parses example_lib) (cells thousands_column) \<and>
   clean_column example_lib thousands_column =
     Inr \<lparr>label = Lbl ''Weighted Frequency'', dtype = Int64,
          cells = [Num (I 1000), Num (I 50)]\<rparr> \<and>
   \<not> list_all (parses example_lib) (cells remarks_column) \<and>
   clean_column example_lib remarks_column =
     Inr \<lparr>label = Lbl ''Share'', dtype = Object, cells = [Str ''12'', Str ''n/a'']\<rparr>"
proof -
  have h: "dtype thousands_column = Object" "label thousands_column = Lbl ''Weighted Frequency''"
    "py_lower ''Weighted Frequency'' \<noteq> ''code''"
    by (simp_all add: thousands_column_def lower_Weighted_Frequency)
  have p: "list_all (parses example_lib) (cells thousands_column)"
    by (simp add: thousands_column_def parses_def stripped_def remove_char_def example_lib_def
        parse_decimal_def unsigned_decimal_def)
  have q: "\<not> list_all (parses example_lib) (cells remarks_column)"
    by (simp add: remarks_column_def parses_def stripped_def remove_char_def example_lib_def
        parse_decimal_def unsigned_decimal_def)
  from value_column_cleaning [OF h, of example_lib] obtain c'
    where c': "clean_column example_lib thousands_column = Inr c'" "label c' = label thousands_column"
      "(dtype c', cells c') =
         pack (map (\<lambda>x. the (to_num example_lib (stripped example_lib x))) (cells thousands_column))"
    using p by auto
  have "c' = \<lparr>label = Lbl ''Weighted Frequency'', dtype = Int64,
              cells = [Num (I 1000), Num (I 50)]\<rparr>"
    using c'(2,3)
    by (cases c') (simp add: thousands_column_def stripped_def remove_char_def example_lib_def
        parse_decimal_def unsigned_decimal_def pack_def)
  moreover have "clean_column example_lib remarks_column =
     Inr \<lparr>label = Lbl ''Share'', dtype = Object, cells = [Str ''12'', Str ''n/a'']\<rparr>"
    by (simp add: remarks_column_def clean_column_def py_lower_def lower_char_def Let_def
        astype_str_def str_replace_def remove_char_def to_numeric_def example_lib_def
        parse_decimal_def unsigned_decimal_def)
  ultimately show ?thesis
    using h p q c'(1) by simp
qed

text \<open>
  The claim as stated fails for a text column whose header cell holds a number: the
  label has no \<^verbatim>\<open>lower()\<close>, so line 208 raises AttributeError and cleaning returns
  no table.
\<close>

theorem numeric_header_column_raises:
  "dtype year_text_column = Object \<and> label year_text_column = IntLbl 2020 \<and>
   clean_column example_lib year_text_column = Inl AttributeError \<and>
   clean example_lib [year_text_column] = Inl AttributeError"
  by (simp add: year_text_column_def clean_column_def clean_def)


section \<open>Numeric answer categories\<close>

text \<open>
  Claim C9. When the table has a "Code" column and an "Answer Categories" column that is
  numeric once the loop has run (every stripped value of a text column parses, or the
  loader delivered it numeric), the Total-row step applies the string accessor to a
  numeric column: it raises AttributeError whenever the loop gets that far, cleaning
  returns no table, and the handler answers with an error object.
\<close>

theorem numeric_categories_raise:
  assumes "get_col df (Lbl ''Answer Categories'') = Some ac"
    and "dtype ac = Object \<longrightarrow> list_all (parses L) (cells ac)"
    and "Lbl ''Code'' \<in> set (columns df)"
  shows "(\<forall>df1. clean_columns L df = Inr df1 \<longrightarrow> blank_total_codes df1 = Inl AttributeError) \<and>
         clean L df = Inl AttributeError \<and>
         (descriptions table_name \<noteq> None \<and> table_name \<noteq> [] \<and> load table_name = df \<and> \<not> df_empty df \<longrightarrow>
            get_table_data L descriptions load (Some table_name) = Failed (Raised AttributeError))"
proof -
  have lab: "label ac = Lbl ''Answer Categories''"
    using assms(1) by (induction df) (auto split: if_splits)
  have blank: "blank_total_codes df1 = Inl AttributeError" if loop: "clean_columns L df = Inr df1" for df1
  proof -
    from clean_columns_get_col [OF loop assms(1)] obtain ac'
      where ac': "get_col df1 (Lbl ''Answer Categories'') = Some ac'" "clean_column L ac = Inr ac'"
      by blast
    have "dtype ac' \<noteq> Object"
      by (rule clean_column_numeric [OF assms(2) lab ac'(2)])
    moreover have "Lbl ''Answer Categories'' \<in> set (columns df1)"
      using ac'(1) by (induction df1) (auto simp: columns_def split: if_splits)
    moreover have "Lbl ''Code'' \<in> set (columns df1)"
      using assms(3) clean_columns_columns [OF loop] by simp
    ultimately show ?thesis
      using ac'(1) by (simp add: blank_total_codes_def str_accessor_def)
  qed
  have cl: "clean L df = Inl AttributeError"
  proof (cases "clean_columns L df")
    case (Inl e)
    then show ?thesis using clean_columns_error [OF Inl] by (simp add: clean_def)
  next
    case (Inr df1)
    then show ?thesis using blank [OF Inr] by (simp add: clean_def)
  qed
  show ?thesis
    using blank cl by (simp add: get_table_data_def)
qed

theorem numeric_categories_raise_witness:
  "get_col numeric_categories_table (Lbl ''Answer Categories'') =
     Some \<lparr>label = Lbl ''Answer Categories'', dtype = Object, cells = [Str ''1'', Str ''2'']\<rparr> \<and>
   list_all (parses example_lib) [Str ''1'', Str ''2''] \<and>
   Lbl ''Code'' \<in> set (columns numeric_categories_table) \<and>
   clean_columns example_lib numeric_categories_table =
     Inr [\<lparr>label = Lbl ''Answer Categories'', dtype = Int64, cells = [Num (I 1), Num (I 2)]\<rparr>,
          \<lparr>label = Lbl ''Code'', dtype = Object, cells = [Str ''01'', Str ''02'']\<rparr>] \<and>
   blank_total_codes
     [\<lparr>label = Lbl ''Answer Categories'', dtype = Int64, cells = [Num (I 1), Num (I 2)]\<rparr>,
      \<lparr>label = Lbl ''Code'', dtype = Object, cells = [Str ''01'', Str ''02'']\<rparr>] =
     Inl AttributeError \<and>
   clean example_lib numeric_categories_table = Inl AttributeError \<and>
   get_table_data example_lib (Map.empty(''T1'' \<mapsto> ''Question 1''))
     (\<lambda>name. numeric_categories_table) (Some ''T1'') = Failed (Raised AttributeError)"
proof -
  have g: "get_col numeric_categories_table (Lbl ''Answer Categories'') =
     Some \<lparr>label = Lbl ''Answer Categories'', dtype = Object, cells = [Str ''1'', Str ''2'']\<rparr>"
    by (simp add: numeric_categories_table_def)
  have p: "list_all (parses example_lib) [Str ''1'', Str ''2'']"
    by (simp add: parses_def stripped_def remove_char_def example_lib_def parse_decimal_def
        unsigned_decimal_def)
  have k: "Lbl ''Code'' \<in> set (columns numeric_categories_table)"
    by (simp add: numeric_categories_table_def columns_def)
  have loop: "clean_columns example_lib numeric_categories_table =
     Inr [\<lparr>label = Lbl ''Answer Categories'', dtype = Int64, cells = [Num (I 1), Num (I 2)]\<rparr>,
          \<lparr>label = Lbl ''Code'', dtype = Object, cells = [Str ''01'', Str ''02'']\<rparr>]"
    by (simp add: numeric_categories_table_def clean_column_def lower_Code
        lower_Answer_Categories Let_def astype_str_def str_replace_def remove_char_def
        to_numeric_def example_lib_def parse_decimal_def unsigned_decimal_def pack_def)
  have e: "\<not> df_empty numeric_categories_table"
    by (simp add: numeric_categories_table_def df_empty_def)
  from numeric_categories_raise [OF g _ k, of example_lib "Map.empty(''T1'' \<mapsto> ''Question 1'')"
      "''T1''" "\<lambda>name. numeric_categories_table"] p loop e g k
  show ?thesis by simp
qed


section \<open>The Total row\<close>


lemma set_where_nth:
  "i < length bm \<Longrightarrow> i < length cs \<Longrightarrow> set_where bm v cs ! i = (if bm ! i then v else cs ! i)"
proof (induction bm v cs arbitrary: i rule: set_where.induct)
  case (1 m ms v c cs)
  then show ?case by (cases i) auto
qed auto

lemma get_col_label: "get_col df l = Some c \<Longrightarrow> label c = l"
  by (induction df) (auto split: if_splits)

lemma get_col_mem: "get_col df l = Some c \<Longrightarrow> c \<in> set df"
  by (induction df) (auto split: if_splits)

lemma get_col_columns: "get_col df l \<noteq> None \<longleftrightarrow> l \<in> set (columns df)"
  by (induction df) (auto simp: columns_def)

lemma get_col_loc_set:
  "get_col (loc_set bm l v df) k =
     map_option (\<lambda>c. if label c = l
                      then c\<lparr>dtype := (if True \<in> set bm then Object else dtype c),
                             cells := set_where bm v (cells c)\<rparr>
                      else c) (get_col df k)"
  by (induction df) (auto simp: loc_set_def)

lemma columns_loc_set [simp]: "columns (loc_set bm l v df) = columns df"
  by (simp add: columns_def loc_set_def comp_def)

lemma blank_total_codes_cases:
  assumes "blank_total_codes df = Inr df'"
  obtains (untouched) "df' = df"
      "\<not> (Lbl ''Answer Categories'' \<in> set (columns df) \<and> Lbl ''Code'' \<in> set (columns df))"
  | (blanked) ac where "get_col df (Lbl ''Answer Categories'') = Some ac" "dtype ac = Object"
      "Lbl ''Code'' \<in> set (columns df)"
      "df' = loc_set (total_mask (cells ac)) (Lbl ''Code'') (Str '''') df"
proof (cases "Lbl ''Answer Categories'' \<in> set (columns df) \<and> Lbl ''Code'' \<in> set (columns df)")
  case False
  with assms have "df' = df" by (simp add: blank_total_codes_def)
  with False untouched show ?thesis by blast
next
  case True
  with assms obtain ac where ac: "get_col df (Lbl ''Answer Categories'') = Some ac"
    by (cases "get_col df (Lbl ''Answer Categories'')") (simp_all add: blank_total_codes_def)
  with True assms have "dtype ac = Object"
    and "df' = loc_set (total_mask (cells ac)) (Lbl ''Code'') (Str '''') df"
    by (simp_all add: blank_total_codes_def str_accessor_def split: if_splits)
  with ac True blanked show ?thesis by blast
qed

lemma clean_padded_total_table:
  "clean example_lib padded_total_table =
     Inr [\<lparr>label = Lbl ''Answer Categories'', dtype = Object,
            cells = [Str ''Yes'', Str (''Total'' @ [CHR 0xC2, CHR 0xA0])]\<rparr>,
          \<lparr>label = Lbl ''Code'', dtype = Object, cells = [Num (I 1), Str '''']\<rparr>]"
  by (simp add: clean_def padded_total_table_def clean_column_def lower_Code
      lower_Answer_Categories Let_def astype_str_def str_replace_def remove_char_def
      to_numeric_def example_lib_def parse_decimal_def unsigned_decimal_def
      blank_total_codes_def columns_def str_accessor_def total_mask_def loc_set_def
      py_strip_def whitespace_def py_lower_def lower_char_def)

lemma total_mask_nth:
  "i < length cs \<Longrightarrow> cs ! i = Str s \<Longrightarrow> py_lower (py_strip s) = ''total'' \<Longrightarrow> total_mask cs ! i"
  by (simp add: total_mask_def)

text \<open>
  Claim C3. When cleaning completes and the table has both an "Answer Categories" and a
  "Code" column, every row whose "Answer Categories" text, trimmed and lowercased, is
  \<^verbatim>\<open>total\<close> holds the empty string in "Code".
\<close>

theorem total_rows_have_blank_code:
  assumes "clean L df = Inr df'"
    and "get_col df' (Lbl ''Answer Categories'') = Some ac"
    and "get_col df' (Lbl ''Code'') = Some cd"
    and "length (cells cd) = length (cells ac)"
    and "i < length (cells ac)" and "cells ac ! i = Str s" and "py_lower (py_strip s) = ''total''"
  shows "cells cd ! i = Str ''''"
proof -
  from assms(1) obtain df1 where loop: "clean_columns L df = Inr df1"
    and blank: "blank_total_codes df1 = Inr df'"
    by (rule cleanE)
  from blank show ?thesis
  proof (cases rule: blank_total_codes_cases)
    case untouched
    with assms(2,3) get_col_columns [of df' "Lbl ''Answer Categories''"]
      get_col_columns [of df' "Lbl ''Code''"]
    show ?thesis by simp
  next
    case (blanked ac1)
    have "label ac1 = Lbl ''Answer Categories''"
      by (rule get_col_label [OF blanked(1)])
    then have "ac = ac1"
      using assms(2) blanked(1,4) by (simp add: get_col_loc_set)
    from assms(3) blanked(4) obtain cd1 where cd1: "get_col df1 (Lbl ''Code'') = Some cd1"
      and cd0: "cd = (if label cd1 = Lbl ''Code''
                      then cd1\<lparr>dtype := (if True \<in> set (total_mask (cells ac1)) then Object else dtype cd1),
                             cells := set_where (total_mask (cells ac1)) (Str '''') (cells cd1)\<rparr>
                      else cd1)"
      by (auto simp: get_col_loc_set)
    have cd: "cells cd = set_where (total_mask (cells ac1)) (Str '''') (cells cd1)"
      using cd0 get_col_label [OF cd1] by simp
    have "length (cells cd1) = length (cells ac)"
      using assms(4) cd by simp
    moreover have "total_mask (cells ac1) ! i"
      using total_mask_nth [OF assms(5,6,7)] \<open>ac = ac1\<close> by simp
    moreover have "length (total_mask (cells ac1)) = length (cells ac)"
      using \<open>ac = ac1\<close> by (simp add: total_mask_def)
    ultimately show ?thesis
      using cd assms(5) by (simp add: set_where_nth)
  qed
qed

theorem total_rows_have_blank_code_witness:
  "clean example_lib text_code_table = Inr text_code_cleaned \<and>
   get_col text_code_cleaned (Lbl ''Answer Categories'') =
     Some \<lparr>label = Lbl ''Answer Categories'', dtype = Object,
           cells = [Str ''Yes'', Str '' TOTAL '']\<rparr> \<and>
   get_col text_code_cleaned (Lbl ''Code'') =
     Some \<lparr>label = Lbl ''Code'', dtype = Object, cells = [Str ''01'', Str '''']\<rparr> \<and>
   py_lower (py_strip '' TOTAL '') = ''total'' \<and>
   cells \<lparr>label = Lbl ''Code'', dtype = Object, cells = [Str ''01'', Str '''']\<rparr> ! 1 = Str '''' \<and>
   py_lower (py_strip (''Total'' @ [CHR 0xC2, CHR 0xA0])) = ''total'' \<and>
   clean example_lib padded_total_table =
     Inr [\<lparr>label = Lbl ''Answer Categories'', dtype = Object,
            cells = [Str ''Yes'', Str (''Total'' @ [CHR 0xC2, CHR 0xA0])]\<rparr>,
          \<lparr>label = Lbl ''Code'', dtype = Object, cells = [Num (I 1), Str '''']\<rparr>] \<and>
   cells \<lparr>label = Lbl ''Code'', dtype = Object, cells = [Num (I 1), Str '''']\<rparr> ! 1 = Str ''''"
proof -
  have a: "get_col text_code_cleaned (Lbl ''Answer Categories'') =
     Some \<lparr>label = Lbl ''Answer Categories'', dtype = Object,
           cells = [Str ''Yes'', Str '' TOTAL '']\<rparr>"
    by (simp add: text_code_cleaned_def)
  have c: "get_col text_code_cleaned (Lbl ''Code'') =
     Some \<lparr>label = Lbl ''Code'', dtype = Object, cells = [Str ''01'', Str '''']\<rparr>"
    by (simp add: text_code_cleaned_def)
  have t: "py_lower (py_strip '' TOTAL '') = ''total''"
    by (simp add: py_strip_def whitespace_def py_lower_def lower_char_def)
  have u: "py_lower (py_strip (''Total'' @ [CHR 0xC2, CHR 0xA0])) = ''total''"
    by (simp add: py_strip_def whitespace_def py_lower_def lower_char_def)
  have "cells \<lparr>label = Lbl ''Code'', dtype = Object, cells = [Str ''01'', Str '''']\<rparr> ! 1 = Str ''''"
    by (rule total_rows_have_blank_code [OF clean_text_code_table a c _ _ _ t]) simp_all
  moreover
  have "cells \<lparr>label = Lbl ''Code'', dtype = Object, cells = [Num (I 1), Str '''']\<rparr> ! 1 = Str ''''"
  proof (rule total_rows_have_blank_code [OF clean_padded_total_table _ _ _ _ _ u])
    show "get_col
        [\<lparr>label = Lbl ''Answer Categories'', dtype = Object,
           cells = [Str ''Yes'', Str (''Total'' @ [CHR 0xC2, CHR 0xA0])]\<rparr>,
         \<lparr>label = Lbl ''Code'', dtype = Object, cells = [Num (I 1), Str '''']\<rparr>]
        (Lbl ''Answer Categories'') =
      Some \<lparr>label = Lbl ''Answer Categories'', dtype = Object,
            cells = [Str ''Yes'', Str (''Total'' @ [CHR 0xC2, CHR 0xA0])]\<rparr>"
      by simp
    show "get_col
        [\<lparr>label = Lbl ''Answer Categories'', dtype = Object,
           cells = [Str ''Yes'', Str (''Total'' @ [CHR 0xC2, CHR 0xA0])]\<rparr>,
         \<lparr>label = Lbl ''Code'', dtype = Object, cells = [Num (I 1), Str '''']\<rparr>]
        (Lbl ''Code'') =
      Some \<lparr>label = Lbl ''Code'', dtype = Object, cells = [Num (I 1), Str '''']\<rparr>"
      by simp
  qed simp_all
  ultimately show ?thesis
    using a c t u by (simp add: clean_text_code_table clean_padded_total_table)
qed


section \<open>Cleaning a cleaned table\<close>





















section \<open>Code columns\<close>








section \<open>The charted rows\<close>

lemma select_map_filter: "select (map P xs) xs = filter P xs"
  by (induction xs) auto

lemma select_map_fst:
  "length xs = length ys \<Longrightarrow>
   select (map P xs) xs = map fst (filter (\<lambda>(x, y). P x) (zip xs ys))"
  by (induction xs ys rule: list_induct2) auto

lemma select_map_snd:
  "length xs = length ys \<Longrightarrow>
   select (map P xs) ys = map snd (filter (\<lambda>(x, y). P x) (zip xs ys))"
  by (induction xs ys rule: list_induct2) auto

lemma select_map_fst':
  "length xs = length ys \<Longrightarrow>
   select (map P ys) xs = map fst (filter (\<lambda>(x, y). P y) (zip xs ys))"
  by (induction xs ys rule: list_induct2) auto

lemma select_map_snd':
  "length xs = length ys \<Longrightarrow>
   select (map P ys) ys = map snd (filter (\<lambda>(x, y). P y) (zip xs ys))"
  by (induction xs ys rule: list_induct2) auto

lemma select_length_cong:
  "length xs = length ys \<Longrightarrow> length (select bm xs) = length (select bm ys)"
proof (induction bm xs arbitrary: ys rule: select.induct)
  case (1 m ms x xs)
  then show ?case by (cases ys) auto
qed auto

lemma get_col_select_rows:
  "get_col (select_rows bm df) l =
     map_option (\<lambda>c. c\<lparr>cells := select bm (cells c)\<rparr>) (get_col df l)"
  by (induction df) (auto simp: select_rows_def)

lemma get_col_set_col:
  "get_col (set_col l s df) k =
     map_option (\<lambda>c. if label c = l then c\<lparr>dtype := fst s, cells := snd s\<rparr> else c)
       (get_col df k)"
  by (induction df) (auto simp: set_col_def)

lemma pack_length [simp]: "length (snd (pack ns)) = length ns"
  by (simp add: pack_def)

lemma reparse_length [simp]: "length (snd (reparse L cs)) = length cs"
  by (simp add: reparse_def to_numeric_coerce_def str_replace_def astype_str_def)

lemma reparse_numeric: "is_numeric_dtype (fst (reparse L cs))"
  by (simp add: reparse_def to_numeric_coerce_def pack_numeric)

lemma prepare_cols:
  assumes "get_col df (Lbl ''Answer Categories'') = Some ac"
    and "get_col df (Lbl ''Weighted Frequency'') = Some fr"
    and bm_def: "bm = keep_mask (cells ac)"
    and s_def: "s = reparse L (select bm (cells fr))"
    and nn_def: "nn = map notna (snd s)"
  shows "prepare L df =
           Inr (select_rows nn (set_col (Lbl ''Weighted Frequency'') s (select_rows bm df)))"
    and "get_col (select_rows nn (set_col (Lbl ''Weighted Frequency'') s (select_rows bm df)))
           (Lbl ''Answer Categories'') = Some (ac\<lparr>cells := select nn (select bm (cells ac))\<rparr>)"
    and "get_col (select_rows nn (set_col (Lbl ''Weighted Frequency'') s (select_rows bm df)))
           (Lbl ''Weighted Frequency'') = Some (fr\<lparr>dtype := fst s, cells := select nn (snd s)\<rparr>)"
proof -
  have la: "label ac = Lbl ''Answer Categories''" and lf: "label fr = Lbl ''Weighted Frequency''"
    using assms(1,2) by (simp_all add: get_col_label)
  show "prepare L df =
           Inr (select_rows nn (set_col (Lbl ''Weighted Frequency'') s (select_rows bm df)))"
    using assms(1,2) la lf
    by (simp add: prepare_def dropna_def Let_def get_col_select_rows get_col_set_col
        bm_def s_def nn_def)
  show "get_col (select_rows nn (set_col (Lbl ''Weighted Frequency'') s (select_rows bm df)))
           (Lbl ''Answer Categories'') = Some (ac\<lparr>cells := select nn (select bm (cells ac))\<rparr>)"
    using assms(1) la by (simp add: get_col_select_rows get_col_set_col)
  show "get_col (select_rows nn (set_col (Lbl ''Weighted Frequency'') s (select_rows bm df)))
           (Lbl ''Weighted Frequency'') = Some (fr\<lparr>dtype := fst s, cells := select nn (snd s)\<rparr>)"
    using assms(2) lf by (simp add: get_col_select_rows get_col_set_col)
qed

lemma charted_rows_fst:
  assumes "length cats = length freqs"
  shows "map fst (charted_rows L cats freqs) =
     select (map notna (snd (reparse L (select (keep_mask cats) freqs)))) (select (keep_mask cats) cats)"
    and "map snd (charted_rows L cats freqs) =
     select (map notna (snd (reparse L (select (keep_mask cats) freqs))))
       (snd (reparse L (select (keep_mask cats) freqs)))"
proof -
  let ?P = "\<lambda>a. notna a \<and> a \<noteq> Str ''Total''"
  let ?kept = "filter (\<lambda>(a, w). ?P a) (zip cats freqs)"
  have a: "select (keep_mask cats) cats = map fst ?kept"
    unfolding keep_mask_def by (rule select_map_fst [OF assms])
  have f: "select (keep_mask cats) freqs = map snd ?kept"
    unfolding keep_mask_def by (rule select_map_snd [OF assms])
  let ?nums = "snd (reparse L (map snd ?kept))"
  have len: "length (map fst ?kept) = length ?nums" by simp
  show "map fst (charted_rows L cats freqs) =
     select (map notna (snd (reparse L (select (keep_mask cats) freqs)))) (select (keep_mask cats) cats)"
    unfolding a f charted_rows_def Let_def
    by (rule select_map_fst' [OF len, symmetric])
  show "map snd (charted_rows L cats freqs) =
     select (map notna (snd (reparse L (select (keep_mask cats) freqs))))
       (snd (reparse L (select (keep_mask cats) freqs)))"
    unfolding a f charted_rows_def Let_def
    by (rule select_map_snd' [OF len, symmetric])
qed

lemma df_empty_prepared:
  assumes "\<not> df_empty df" "rectangular df" "fr \<in> set df"
    and pd_def: "pd = select_rows nn (set_col l s (select_rows bm df))"
    and "length (snd s) = length (select bm (cells fr))"
  shows "df_empty pd \<longleftrightarrow> select nn (snd s) = []"
proof -
  from assms(1) obtain c0 rest where df: "df = c0 # rest"
    by (cases df) (auto simp: df_empty_def)
  have "length (cells c0) = length (cells fr)"
    using assms(2,3) df by (auto simp: rectangular_def)
  then have "length (select bm (cells c0)) = length (snd s)"
    using assms(5) select_length_cong [of "cells c0" "cells fr" bm] by simp
  then have "length (select nn (select bm (cells c0))) = length (select nn (snd s))"
    by (rule select_length_cong)
  moreover have "df_empty pd \<longleftrightarrow>
      (if label c0 = l then select nn (snd s) = [] else select nn (select bm (cells c0)) = [])"
    by (simp add: pd_def df df_empty_def select_rows_def set_col_def)
  ultimately show ?thesis
    by (cases "label c0 = l") (simp_all del: length_0_conv add: length_0_conv [symmetric])
qed

lemma create_visualizations_rows:
  assumes ne: "\<not> df_empty df" and rect: "rectangular df"
    and ac: "get_col df (Lbl ''Answer Categories'') = Some ac"
    and fr: "get_col df (Lbl ''Weighted Frequency'') = Some fr"
  shows "create_visualizations L df table_name =
     (let rows = charted_rows L (cells ac) (cells fr)
      in if rows = [] then Map.empty
         else charts table_name (ac\<lparr>cells := map fst rows\<rparr>)
                (fr\<lparr>dtype := fst (reparse L (select (keep_mask (cells ac)) (cells fr))),
                    cells := map snd rows\<rparr>))"
proof -
  define bm where "bm = keep_mask (cells ac)"
  define s where "s = reparse L (select bm (cells fr))"
  define nn where "nn = map notna (snd s)"
  define pd where "pd = select_rows nn (set_col (Lbl ''Weighted Frequency'') s (select_rows bm df))"
  note pc = prepare_cols [OF ac fr bm_def s_def nn_def, folded pd_def]
  have mem: "ac \<in> set df" "fr \<in> set df"
    using ac fr by (simp_all add: get_col_mem)
  have len: "length (cells ac) = length (cells fr)"
    using rect mem unfolding rectangular_def by blast
  have req: "list_all (\<lambda>col. col \<in> set (columns df)) required_cols"
    using get_col_columns [of df "Lbl ''Answer Categories''"]
      get_col_columns [of df "Lbl ''Weighted Frequency''"] ac fr
    by (simp add: required_cols_def)
  have rows_fst: "map fst (charted_rows L (cells ac) (cells fr)) = select nn (select bm (cells ac))"
    and rows_snd: "map snd (charted_rows L (cells ac) (cells fr)) = select nn (snd s)"
    using charted_rows_fst [OF len, of L] by (simp_all add: nn_def s_def bm_def)
  have "length (snd s) = length (select bm (cells fr))"
    by (simp add: s_def)
  from df_empty_prepared [OF ne rect mem(2) pd_def this]
  have "df_empty pd \<longleftrightarrow> select nn (snd s) = []" .
  also have "\<dots> \<longleftrightarrow> map snd (charted_rows L (cells ac) (cells fr)) = []"
    by (simp only: rows_snd)
  finally have emp: "df_empty pd \<longleftrightarrow> charted_rows L (cells ac) (cells fr) = []"
    by (simp only: map_is_Nil_conv)
  have cv: "create_visualizations L df table_name =
     (if df_empty pd then Map.empty
      else charts table_name (ac\<lparr>cells := select nn (select bm (cells ac))\<rparr>)
             (fr\<lparr>dtype := fst s, cells := select nn (snd s)\<rparr>))"
    using ne req pc by (simp add: create_visualizations_def)
  show ?thesis
    unfolding cv emp Let_def rows_fst rows_snd
    by (simp only: s_def bm_def)
qed

lemma charts_dom:
  "dom (charts table_name a f) =
     (if is_numeric_dtype (dtype f) then {''pie_chart'', ''box_plot'', ''bar_chart''}
      else {''pie_chart'', ''bar_chart''})"
  by (auto simp: charts_def Let_def)

lemma create_visualizations_cases:
  obtains (nothing) "create_visualizations L df table_name = Map.empty"
  | (charted) plot_df ac fr where "prepare L df = Inr plot_df"
      "get_col plot_df (Lbl ''Answer Categories'') = Some ac"
      "get_col plot_df (Lbl ''Weighted Frequency'') = Some fr"
      "is_numeric_dtype (dtype fr)"
      "create_visualizations L df table_name = charts table_name ac fr"
proof (cases "create_visualizations L df table_name = Map.empty")
  case True
  then show ?thesis by (rule nothing)
next
  case False
  then obtain plot_df where p: "prepare L df = Inr plot_df"
    by (cases "prepare L df") (auto simp: create_visualizations_def split: if_splits)
  then obtain ac0 where ac0: "get_col df (Lbl ''Answer Categories'') = Some ac0"
    by (cases "get_col df (Lbl ''Answer Categories'')") (simp_all add: prepare_def)
  from p ac0 obtain fr1 where
    "get_col (select_rows (keep_mask (cells ac0)) df) (Lbl ''Weighted Frequency'') = Some fr1"
    by (cases "get_col (select_rows (keep_mask (cells ac0)) df) (Lbl ''Weighted Frequency'')")
       (simp_all add: prepare_def Let_def)
  then obtain fr0 where fr0: "get_col df (Lbl ''Weighted Frequency'') = Some fr0"
    by (auto simp: get_col_select_rows)
  note pc = prepare_cols [OF ac0 fr0 refl refl refl, of L]
  from pc(1) p have pd: "plot_df =
      select_rows (map notna (snd (reparse L (select (keep_mask (cells ac0)) (cells fr0)))))
        (set_col (Lbl ''Weighted Frequency'')
           (reparse L (select (keep_mask (cells ac0)) (cells fr0)))
           (select_rows (keep_mask (cells ac0)) df))"
    by simp
  let ?ac = "ac0\<lparr>cells := select (map notna (snd (reparse L (select (keep_mask (cells ac0)) (cells fr0)))))
                         (select (keep_mask (cells ac0)) (cells ac0))\<rparr>"
  let ?fr = "fr0\<lparr>dtype := fst (reparse L (select (keep_mask (cells ac0)) (cells fr0))),
                  cells := select (map notna (snd (reparse L (select (keep_mask (cells ac0)) (cells fr0)))))
                             (snd (reparse L (select (keep_mask (cells ac0)) (cells fr0))))\<rparr>"
  have a: "get_col plot_df (Lbl ''Answer Categories'') = Some ?ac"
    and f: "get_col plot_df (Lbl ''Weighted Frequency'') = Some ?fr"
    using pc(2,3) pd by simp_all
  have n: "is_numeric_dtype (dtype ?fr)"
    by (simp add: reparse_numeric)
  have "create_visualizations L df table_name = charts table_name ?ac ?fr"
    using False p a f by (simp add: create_visualizations_def split: if_splits)
  with p a f n show ?thesis by (rule charted)
qed

lemma survey_table_charts:
  "create_visualizations example_lib survey_table ''T1'' =
     [''pie_chart'' \<mapsto> Pie [Num (I 10), Num (I 20)] [Str ''A'', Str ''B''] 0
                         ''T1: Weighted Distribution'',
      ''box_plot'' \<mapsto> Box [Num (I 10), Num (I 20)] ''T1: Weighted Frequency Distribution'',
      ''bar_chart'' \<mapsto> Bar [Str ''A'', Str ''B''] [Num (I 10), Num (I 20)]
                         ''T1: Weighted Frequency by Category'']"
  by (simp add: create_visualizations_def survey_table_def df_empty_def columns_def
      required_cols_def prepare_def keep_mask_def select_rows_def reparse_def astype_str_def
      str_replace_def remove_char_def to_numeric_coerce_def example_lib_def parse_decimal_def
      unsigned_decimal_def pack_def set_col_def dropna_def charts_def is_numeric_dtype_def
      Let_def)

lemma survey_table_rows:
  "charted_rows example_lib [Str ''A'', Str ''B'', Str ''Total''] [Str ''10'', Str ''20'', Str ''5''] =
     [(Str ''A'', Num (I 10)), (Str ''B'', Num (I 20))]"
  by (simp add: charted_rows_def reparse_def astype_str_def str_replace_def remove_char_def
      to_numeric_coerce_def example_lib_def parse_decimal_def unsigned_decimal_def pack_def
      Let_def)

text \<open>
  Claim C4, as amended. For a table with both columns, \<^verbatim>\<open>create_visualizations\<close>
  charts exactly the rows that \<open>charted_rows\<close> describes: it drops the rows whose
  "Answer Categories" value is missing or is the string \<^verbatim>\<open>Total\<close> (compared as it is,
  in that case only), and it also drops the rows whose "Weighted Frequency" does not
  read as a number. The pie, box and bar series are the categories and frequencies of
  the remaining rows, in order, and there is no chart when no row remains. For the
  categories A, B, Total with the frequencies 10, 20, 5 the pie and the bar chart hold
  the two entries A: 10 and B: 20.
\<close>

theorem charts_hold_charted_rows:
  assumes "\<not> df_empty df" and "rectangular df"
    and "get_col df (Lbl ''Answer Categories'') = Some ac"
    and "get_col df (Lbl ''Weighted Frequency'') = Some fr"
  shows "create_visualizations L df table_name =
     (let rows = charted_rows L (cells ac) (cells fr)
      in if rows = [] then Map.empty
         else [''pie_chart'' \<mapsto> Pie (map snd rows) (map fst rows)
                                  (if 5 < length rows then 3 / 10 else 0)
                                  (table_name @ '': Weighted Distribution''),
               ''box_plot'' \<mapsto> Box (map snd rows)
                                  (table_name @ '': Weighted Frequency Distribution''),
               ''bar_chart'' \<mapsto> Bar (map fst rows) (map snd rows)
                                  (table_name @ '': Weighted Frequency by Category'')]) \<and>
   create_visualizations example_lib survey_table ''T1'' =
     [''pie_chart'' \<mapsto> Pie [Num (I 10), Num (I 20)] [Str ''A'', Str ''B''] 0
                         ''T1: Weighted Distribution'',
      ''box_plot'' \<mapsto> Box [Num (I 10), Num (I 20)] ''T1: Weighted Frequency Distribution'',
      ''bar_chart'' \<mapsto> Bar [Str ''A'', Str ''B''] [Num (I 10), Num (I 20)]
                         ''T1: Weighted Frequency by Category'']"
  using create_visualizations_rows [OF assms, of L table_name] survey_table_charts
    reparse_numeric [of L "select (keep_mask (cells ac)) (cells fr)"]
  by (simp add: charts_def Let_def)

theorem charts_hold_charted_rows_witness:
  "\<not> df_empty survey_table \<and> rectangular survey_table \<and>
   get_col survey_table (Lbl ''Answer Categories'') =
     Some \<lparr>label = Lbl ''Answer Categories'', dtype = Object,
           cells = [Str ''A'', Str ''B'', Str ''Total'']\<rparr> \<and>
   get_col survey_table (Lbl ''Weighted Frequency'') =
     Some \<lparr>label = Lbl ''Weighted Frequency'', dtype = Object,
           cells = [Str ''10'', Str ''20'', Str ''5'']\<rparr> \<and>
   create_visualizations example_lib survey_table ''Table'' =
     [''pie_chart'' \<mapsto> Pie [Num (I 10), Num (I 20)] [Str ''A'', Str ''B''] 0
                         ''Table: Weighted Distribution'',
      ''box_plot'' \<mapsto> Box [Num (I 10), Num (I 20)] ''Table: Weighted Frequency Distribution'',
      ''bar_chart'' \<mapsto> Bar [Str ''A'', Str ''B''] [Num (I 10), Num (I 20)]
                         ''Table: Weighted Frequency by Category'']"
proof -
  have e: "\<not> df_empty survey_table"
    by (simp add: survey_table_def df_empty_def)
  have r: "rectangular survey_table"
    by (simp add: survey_table_def rectangular_def)
  have a: "get_col survey_table (Lbl ''Answer Categories'') =
     Some \<lparr>label = Lbl ''Answer Categories'', dtype = Object,
           cells = [Str ''A'', Str ''B'', Str ''Total'']\<rparr>"
    by (simp add: survey_table_def)
  have f: "get_col survey_table (Lbl ''Weighted Frequency'') =
     Some \<lparr>label = Lbl ''Weighted Frequency'', dtype = Object,
           cells = [Str ''10'', Str ''20'', Str ''5'']\<rparr>"
    by (simp add: survey_table_def)
  from charts_hold_charted_rows [OF e r a f, of example_lib "''Table''"] e r a f
  show ?thesis
    by (simp add: survey_table_rows)
qed

text \<open>
  The claim as stated fails where a frequency does not read as a number: row B is
  neither missing nor \<^verbatim>\<open>Total\<close>, and it is dropped.
\<close>

theorem unparsable_frequency_row_is_dropped:
  "keep_mask (cells (unparsable_table ! 0)) = [True, True] \<and>
   cells (unparsable_table ! 0) = [Str ''A'', Str ''B''] \<and>
   create_visualizations example_lib unparsable_table ''T1'' ''pie_chart'' =
     Some (Pie [Num (F 10)] [Str ''A''] 0 ''T1: Weighted Distribution'') \<and>
   create_visualizations example_lib unparsable_table ''T1'' ''bar_chart'' =
     Some (Bar [Str ''A''] [Num (F 10)] ''T1: Weighted Frequency by Category'')"
  by (simp add: create_visualizations_def unparsable_table_def df_empty_def columns_def
      required_cols_def prepare_def keep_mask_def select_rows_def reparse_def astype_str_def
      str_replace_def remove_char_def to_numeric_coerce_def example_lib_def parse_decimal_def
      unsigned_decimal_def pack_def set_col_def dropna_def charts_def is_numeric_dtype_def
      Let_def)


section \<open>The box plot\<close>

text \<open>
  Claim C10. The re-parsed frequency series is numeric whatever its cells are, since a
  cell that does not parse becomes NaN. So a result of \<^verbatim>\<open>create_visualizations\<close> that
  is not empty has all three entries.
\<close>

theorem three_charts_or_none:
  "(create_visualizations L df table_name \<noteq> Map.empty \<longrightarrow>
      dom (create_visualizations L df table_name) = {''pie_chart'', ''box_plot'', ''bar_chart''}) \<and>
   is_numeric_dtype (fst (reparse L cs))"
proof (intro conjI impI)
  assume ne: "create_visualizations L df table_name \<noteq> Map.empty"
  show "dom (create_visualizations L df table_name) = {''pie_chart'', ''box_plot'', ''bar_chart''}"
  proof (cases L df table_name rule: create_visualizations_cases)
    case nothing
    with ne show ?thesis by simp
  next
    case (charted plot_df ac fr)
    then show ?thesis by (simp add: charts_dom)
  qed
next
  show "is_numeric_dtype (fst (reparse L cs))" by (rule reparse_numeric)
qed

theorem three_charts_or_none_witness:
  "create_visualizations example_lib survey_table ''T1'' \<noteq> Map.empty \<and>
   dom (create_visualizations example_lib survey_table ''T1'') =
     {''pie_chart'', ''box_plot'', ''bar_chart''}"
proof -
  have "create_visualizations example_lib survey_table ''T1'' ''pie_chart'' \<noteq> None"
    by (simp add: survey_table_charts)
  then have ne: "create_visualizations example_lib survey_table ''T1'' \<noteq> Map.empty"
    by auto
  with three_charts_or_none [of example_lib survey_table "''T1''"] show ?thesis
    by blast
qed

text \<open>
  Claim C8. The box plot is in the result only when the frequency column of the
  prepared table is numeric-typed; the guard of line 118 adds it exactly when the
  series it is given is numeric, and leaves it out for a series that is text.
\<close>

theorem box_plot_needs_numbers:
  "(create_visualizations L df table_name ''box_plot'' \<noteq> None \<longrightarrow>
      (\<exists>plot_df fr. prepare L df = Inr plot_df \<and>
         get_col plot_df (Lbl ''Weighted Frequency'') = Some fr \<and> is_numeric_dtype (dtype fr))) \<and>
   (charts table_name ac fr ''box_plot'' \<noteq> None \<longleftrightarrow> is_numeric_dtype (dtype fr))"
proof (intro conjI impI)
  assume b: "create_visualizations L df table_name ''box_plot'' \<noteq> None"
  show "\<exists>plot_df fr. prepare L df = Inr plot_df \<and>
         get_col plot_df (Lbl ''Weighted Frequency'') = Some fr \<and> is_numeric_dtype (dtype fr)"
  proof (cases L df table_name rule: create_visualizations_cases)
    case nothing
    with b show ?thesis by simp
  next
    case (charted plot_df ac fr)
    then show ?thesis by blast
  qed
next
  show "charts table_name ac fr ''box_plot'' \<noteq> None \<longleftrightarrow> is_numeric_dtype (dtype fr)"
    by (simp add: charts_def Let_def)
qed

theorem box_plot_needs_numbers_witness:
  "create_visualizations example_lib survey_table ''T1'' ''box_plot'' \<noteq> None \<and>
   (\<exists>plot_df fr. prepare example_lib survey_table = Inr plot_df \<and>
      get_col plot_df (Lbl ''Weighted Frequency'') = Some fr \<and> is_numeric_dtype (dtype fr)) \<and>
   \<not> is_numeric_dtype (dtype remarks_column) \<and>
   charts ''T1'' thousands_column remarks_column ''box_plot'' = None"
proof -
  have b: "create_visualizations example_lib survey_table ''T1'' ''box_plot'' \<noteq> None"
    by (simp add: survey_table_charts)
  have n: "\<not> is_numeric_dtype (dtype remarks_column)"
    by (simp add: remarks_column_def is_numeric_dtype_def)
  from box_plot_needs_numbers [of example_lib survey_table "''T1''" thousands_column
      remarks_column] b n
  show ?thesis by blast
qed


section \<open>The statistics record\<close>

lemma int_column_stats:
  "get_basic_statistics int_column_table =
     [Lbl ''Value'' \<mapsto> \<lparr>mean = F 2, median = F 2, stat_min = I 1, stat_max = I 3, std = F 1, count = 3\<rparr>]"
  by (simp add: get_basic_statistics_def int_column_table_def df_empty_def is_numeric_dtype_def
      py_lower_def lower_char_def describe_def series_mean_def series_median_def series_min_def
      series_max_def series_std_def series_count_def num_min_def num_max_def rint_def Let_def
      power2_eq_square numeral_3_eq_3)

lemma float_column_stats:
  "get_basic_statistics float_column_table =
     [Lbl ''Value'' \<mapsto> \<lparr>mean = F 2, median = F 2, stat_min = F 1, stat_max = F 3, std = F 1, count = 3\<rparr>]"
  by (simp add: get_basic_statistics_def float_column_table_def df_empty_def is_numeric_dtype_def
      py_lower_def lower_char_def describe_def series_mean_def series_median_def series_min_def
      series_max_def series_std_def series_count_def num_min_def num_max_def rint_def Let_def
      power2_eq_square numeral_3_eq_3)

lemma numeric_cols_error:
  "c \<in> set df \<Longrightarrow> is_numeric_dtype (dtype c) \<Longrightarrow> label c = IntLbl k \<Longrightarrow>
   numeric_cols df = Inl AttributeError"
proof (induction df)
  case (Cons a df)
  show ?case
  proof (cases "a = c")
    case True
    with Cons.prems show ?thesis by simp
  next
    case False
    with Cons have "numeric_cols df = Inl AttributeError" by simp
    then show ?thesis by (cases "label a") (simp_all split: sum.splits)
  qed
qed simp

lemma numeric_cols_selected:
  "\<forall>c\<in>set df. is_numeric_dtype (dtype c) \<longrightarrow> (\<exists>n. label c = Lbl n) \<Longrightarrow>
   numeric_cols df = Inr (map label (filter selected df))"
  by (induction df) (auto simp: selected_def)

lemma stats_loop_map:
  "\<forall>l\<in>set ls. get_col df l \<noteq> None \<Longrightarrow>
   stats_loop df ls st =
     Inr (\<lambda>k. if k \<in> set ls then map_option describe (get_col df k) else st k)"
proof (induction ls arbitrary: st)
  case Nil
  then show ?case by simp
next
  case (Cons l ls)
  then obtain c where c: "get_col df l = Some c" by auto
  from Cons have "\<forall>l\<in>set ls. get_col df l \<noteq> None" by simp
  from Cons.IH [OF this] c show ?case by (auto simp: fun_eq_iff)
qed

lemma get_col_distinct:
  "distinct (columns df) \<Longrightarrow> c \<in> set df \<Longrightarrow> get_col df (label c) = Some c"
  by (induction df) (auto simp: columns_def)

lemma statistics_selected:
  assumes ne: "\<not> df_empty df" and dist: "distinct (columns df)"
    and str: "\<forall>c\<in>set df. is_numeric_dtype (dtype c) \<longrightarrow> (\<exists>n. label c = Lbl n)"
  shows "get_basic_statistics df l =
     (case get_col df l of
        None \<Rightarrow> None
      | Some c \<Rightarrow> if selected c then Some (describe c) else None)"
proof -
  let ?ls = "map label (filter selected df)"
  have nc: "numeric_cols df = Inr ?ls" by (rule numeric_cols_selected [OF str])
  have ex: "\<forall>l\<in>set ?ls. get_col df l \<noteq> None"
    using get_col_distinct [OF dist] by auto
  have gs: "get_basic_statistics df l =
      (if l \<in> set ?ls then map_option describe (get_col df l) else None)"
    using ne nc stats_loop_map [OF ex, of Map.empty] by (simp add: get_basic_statistics_def)
  show ?thesis
  proof (cases "get_col df l")
    case None
    then have "l \<notin> set (columns df)" using get_col_columns [of df l] by simp
    then have "l \<notin> set ?ls" by (auto simp: columns_def)
    with gs None show ?thesis by simp
  next
    case (Some c)
    then have c: "c \<in> set df" "label c = l" by (simp_all add: get_col_mem get_col_label)
    have "l \<in> set ?ls \<longleftrightarrow> selected c"
    proof
      assume "l \<in> set ?ls"
      then obtain d where d: "d \<in> set df" "selected d" "label d = l" by auto
      with get_col_distinct [OF dist d(1)] Some show "selected c" by simp
    next
      assume "selected c"
      with c show "l \<in> set ?ls" by auto
    qed
    with gs Some show ?thesis by simp
  qed
qed

lemma rint_near: "\<bar>of_int (rint x) - x\<bar> \<le> 1 / 2"
  unfolding rint_def Let_def by (auto simp: abs_le_iff)

lemma round2_two_decimals: "two_decimals (round2 n)"
  by (cases n) simp_all

lemma round2_near: "near (round2 n) n"
proof (cases n)
  case (F r)
  have "\<bar>of_int (rint (r * 100)) - r * 100\<bar> \<le> 1 / 2" by (rule rint_near)
  then have "\<bar>of_int (rint (r * 100)) / 100 - r\<bar> \<le> 1 / 200"
    by (simp add: abs_le_iff field_simps)
  with F show ?thesis by simp
qed simp_all

lemma present_count: "length (present cs) = length (filter is_value cs)"
  by (induction cs rule: present.induct) auto

lemma coded_table_stats:
  "get_basic_statistics coded_table =
     [Lbl ''Share'' \<mapsto> \<lparr>mean = F (25 / 2), median = F (25 / 2), stat_min = F (25 / 2),
                          stat_max = F (25 / 2), std = NaN, count = 1\<rparr>]"
  by (simp add: get_basic_statistics_def coded_table_def df_empty_def is_numeric_dtype_def
      py_lower_def lower_char_def describe_def series_mean_def series_median_def series_min_def
      series_max_def series_std_def series_count_def num_min_def num_max_def rint_def Let_def)

lemma rint_unique: "\<bar>x - of_int k\<bar> < 1 / 2 \<Longrightarrow> rint x = k"
proof -
  assume a: "\<bar>x - of_int k\<bar> < 1 / 2"
  have lo: "real_of_int \<lfloor>x\<rfloor> \<le> x" and hi: "x < real_of_int \<lfloor>x\<rfloor> + 1"
    by linarith+
  from a have b: "x < real_of_int k + 1 / 2" "real_of_int k - 1 / 2 < x"
    by linarith+
  from lo hi b have "\<lfloor>x\<rfloor> \<le> k" "k - 1 \<le> \<lfloor>x\<rfloor>" by linarith+
  then have "\<lfloor>x\<rfloor> = k \<or> \<lfloor>x\<rfloor> = k - 1" by linarith
  then show ?thesis
  proof
    assume f: "\<lfloor>x\<rfloor> = k"
    then have "x - of_int k < 1 / 2" using b by simp
    with f show ?thesis by (simp add: rint_def Let_def)
  next
    assume f: "\<lfloor>x\<rfloor> = k - 1"
    then have "1 / 2 < x - of_int (k - 1)" using b by simp
    with f show ?thesis by (simp add: rint_def Let_def)
  qed
qed

lemma fold_num_min:
  "fold num_min ns n \<in> set (n # ns) \<and>
   (\<forall>m\<in>set (n # ns). num_val (fold num_min ns n) \<le> num_val m)"
proof (induction ns arbitrary: n)
  case Nil
  then show ?case by simp
next
  case (Cons a ns)
  define k where "k = num_min a n"
  have k: "k = a \<or> k = n" "num_val k \<le> num_val a" "num_val k \<le> num_val n"
    by (auto simp: k_def num_min_def)
  from Cons [of k] have r: "fold num_min ns k \<in> set (k # ns)"
    and le: "\<forall>m\<in>set (k # ns). num_val (fold num_min ns k) \<le> num_val m"
    by blast+
  from le have "num_val (fold num_min ns k) \<le> num_val k" by simp
  with k have "num_val (fold num_min ns k) \<le> num_val a"
    "num_val (fold num_min ns k) \<le> num_val n" by linarith+
  moreover have "fold num_min (a # ns) n = fold num_min ns k" by (simp add: k_def)
  ultimately show ?case using r le k(1) by auto
qed

lemma fold_num_max:
  "fold num_max ns n \<in> set (n # ns) \<and>
   (\<forall>m\<in>set (n # ns). num_val m \<le> num_val (fold num_max ns n))"
proof (induction ns arbitrary: n)
  case Nil
  then show ?case by simp
next
  case (Cons a ns)
  define k where "k = num_max a n"
  have k: "k = a \<or> k = n" "num_val a \<le> num_val k" "num_val n \<le> num_val k"
    by (auto simp: k_def num_max_def)
  from Cons [of k] have r: "fold num_max ns k \<in> set (k # ns)"
    and le: "\<forall>m\<in>set (k # ns). num_val m \<le> num_val (fold num_max ns k)"
    by blast+
  from le have "num_val k \<le> num_val (fold num_max ns k)" by simp
  with k have "num_val a \<le> num_val (fold num_max ns k)"
    "num_val n \<le> num_val (fold num_max ns k)" by linarith+
  moreover have "fold num_max (a # ns) n = fold num_max ns k" by (simp add: k_def)
  ultimately show ?case using r le k(1) by auto
qed

lemma series_min_least:
  "present cs \<noteq> [] \<Longrightarrow>
   series_min cs \<in> set (present cs) \<and>
   (\<forall>m\<in>set (present cs). num_val (series_min cs) \<le> num_val m)"
  using fold_num_min [of "tl (present cs)" "hd (present cs)"]
  by (cases "present cs") (simp_all add: series_min_def)

lemma series_max_greatest:
  "present cs \<noteq> [] \<Longrightarrow>
   series_max cs \<in> set (present cs) \<and>
   (\<forall>m\<in>set (present cs). num_val m \<le> num_val (series_max cs))"
  using fold_num_max [of "tl (present cs)" "hd (present cs)"]
  by (cases "present cs") (simp_all add: series_max_def)

lemma series_min_max_none:
  "present cs = [] \<Longrightarrow> series_min cs = NaN \<and> series_max cs = NaN"
  by (simp add: series_min_def series_max_def)

lemma sqrt_19_12: "\<bar>sqrt (19 / 12) * 100 - of_int 126\<bar> < 1 / 2"
proof -
  have "(251 / 200 :: real)\<^sup>2 < 19 / 12" by (simp add: power2_eq_square)
  then have lo: "251 / 200 < sqrt (19 / 12)" by (rule real_less_rsqrt)
  have "(19 / 12 :: real) < (253 / 200)\<^sup>2" by (simp add: power2_eq_square)
  then have hi: "sqrt (19 / 12) < 253 / 200" by (intro real_less_lsqrt) simp_all
  from lo hi show ?thesis by linarith
qed

lemma unsorted_std:
  "series_std [Num (F 2), Num NaN, Num (F 1), Num (F 4), Num (F 2)] = F (sqrt (19 / 12))"
  by (simp add: series_std_def Let_def power2_eq_square)

lemma unsorted_table_stats:
  "get_basic_statistics unsorted_table =
     [Lbl ''Share'' \<mapsto> \<lparr>mean = F (9 / 4), median = F 2, stat_min = F 1, stat_max = F 4,
                          std = F (63 / 50), count = 4\<rparr>]"
proof -
  let ?cs = "[Num (F 2), Num NaN, Num (F 1), Num (F 4), Num (F 2)]"
  have r: "rint (sqrt (19 / 12) * 100) = 126"
    by (rule rint_unique [OF sqrt_19_12])
  have sd: "round2 (series_std ?cs) = F (63 / 50)"
    by (simp add: unsorted_std r)
  have mn: "round2 (series_mean ?cs) = F (9 / 4)"
    by (simp add: series_mean_def rint_def Let_def)
  have md: "round2 (series_median ?cs) = F 2"
    by (simp add: series_median_def rint_def Let_def)
  have mi: "round2 (series_min ?cs) = F 1"
    by (simp add: series_min_def num_min_def rint_def Let_def)
  have ma: "round2 (series_max ?cs) = F 4"
    by (simp add: series_max_def num_max_def rint_def Let_def)
  have ct: "series_count ?cs = 4"
    by (simp add: series_count_def)
  show ?thesis
    by (simp add: get_basic_statistics_def unsorted_table_def df_empty_def
        is_numeric_dtype_def py_lower_def lower_char_def describe_def sd mn md mi ma ct
        del: round2.simps)
qed

lemma round2_examples:
  "round2 (F (5 / 3)) = F (167 / 100) \<and> round2 (F (1 / 8)) = F (3 / 25) \<and>
   round2 (F (3 / 8)) = F (19 / 50) \<and> round2 (F (- 5 / 3)) = F (- 167 / 100)"
  by (simp add: rint_def Let_def)

text \<open>
  Claim C5, as amended. An empty table gives the empty record. Otherwise, when the
  labels are distinct and every numeric column has a string label, the record has an
  entry for exactly the selected columns (numeric-typed, name not "code" in any case),
  and the entry of a column is \<open>describe\<close> of it: mean, median, min, max and std have at
  most two decimal places and lie within half a unit of the second place of the
  unrounded value, min and max are rounded from the least and the greatest of the
  values that are not missing (NaN when there is none), and count is the number of
  cells that hold a number other than NaN. For one numeric column 1, 2, 3 the entry is
  mean 2, median 2, min 1, max 3, std 1, count 3, for an int64 and for a float64
  column; for the float64 column 2, NaN, 1, 4, 2 it is mean 2.25, median 2, min 1,
  max 4, std 1.26, count 4.
\<close>

theorem statistics_of_numeric_columns:
  "(df_empty df \<longrightarrow> get_basic_statistics df = Map.empty) \<and>
   (\<not> df_empty df \<and> distinct (columns df) \<and>
    (\<forall>c\<in>set df. is_numeric_dtype (dtype c) \<longrightarrow> (\<exists>n. label c = Lbl n)) \<longrightarrow>
      get_basic_statistics df l =
        (case get_col df l of
           None \<Rightarrow> None
         | Some c \<Rightarrow> if selected c then Some (describe c) else None)) \<and>
   (two_decimals (mean (describe c)) \<and> near (mean (describe c)) (series_mean (cells c)) \<and>
    two_decimals (median (describe c)) \<and> near (median (describe c)) (series_median (cells c)) \<and>
    two_decimals (stat_min (describe c)) \<and> near (stat_min (describe c)) (series_min (cells c)) \<and>
    two_decimals (stat_max (describe c)) \<and> near (stat_max (describe c)) (series_max (cells c)) \<and>
    two_decimals (std (describe c)) \<and> near (std (describe c)) (series_std (cells c)) \<and>
    count (describe c) = length (filter is_value (cells c))) \<and>
   (present (cells c) = [] \<longrightarrow> series_min (cells c) = NaN \<and> series_max (cells c) = NaN) \<and>
   (present (cells c) \<noteq> [] \<longrightarrow>
      series_min (cells c) \<in> set (present (cells c)) \<and>
      (\<forall>m\<in>set (present (cells c)). num_val (series_min (cells c)) \<le> num_val m) \<and>
      series_max (cells c) \<in> set (present (cells c)) \<and>
      (\<forall>m\<in>set (present (cells c)). num_val m \<le> num_val (series_max (cells c)))) \<and>
   get_basic_statistics int_column_table =
     [Lbl ''Value'' \<mapsto> \<lparr>mean = F 2, median = F 2, stat_min = I 1, stat_max = I 3,
                          std = F 1, count = 3\<rparr>] \<and>
   get_basic_statistics float_column_table =
     [Lbl ''Value'' \<mapsto> \<lparr>mean = F 2, median = F 2, stat_min = F 1, stat_max = F 3,
                          std = F 1, count = 3\<rparr>] \<and>
   get_basic_statistics unsorted_table =
     [Lbl ''Share'' \<mapsto> \<lparr>mean = F (9 / 4), median = F 2, stat_min = F 1, stat_max = F 4,
                          std = F (63 / 50), count = 4\<rparr>] \<and>
   round2 (F (5 / 3)) = F (167 / 100) \<and> round2 (F (1 / 8)) = F (3 / 25) \<and>
   round2 (F (3 / 8)) = F (19 / 50) \<and> round2 (F (- 5 / 3)) = F (- 167 / 100)"
proof -
  have empty: "df_empty df \<longrightarrow> get_basic_statistics df = Map.empty"
    by (simp add: get_basic_statistics_def)
  have entries: "\<not> df_empty df \<and> distinct (columns df) \<and>
    (\<forall>c\<in>set df. is_numeric_dtype (dtype c) \<longrightarrow> (\<exists>n. label c = Lbl n)) \<longrightarrow>
      get_basic_statistics df l =
        (case get_col df l of
           None \<Rightarrow> None
         | Some c \<Rightarrow> if selected c then Some (describe c) else None)"
    using statistics_selected [of df l] by blast
  have rounded: "two_decimals (mean (describe c)) \<and> near (mean (describe c)) (series_mean (cells c)) \<and>
    two_decimals (median (describe c)) \<and> near (median (describe c)) (series_median (cells c)) \<and>
    two_decimals (stat_min (describe c)) \<and> near (stat_min (describe c)) (series_min (cells c)) \<and>
    two_decimals (stat_max (describe c)) \<and> near (stat_max (describe c)) (series_max (cells c)) \<and>
    two_decimals (std (describe c)) \<and> near (std (describe c)) (series_std (cells c)) \<and>
    count (describe c) = length (filter is_value (cells c))"
    by (simp add: describe_def round2_two_decimals round2_near series_count_def present_count
        del: round2.simps)
  have none: "present (cells c) = [] \<longrightarrow> series_min (cells c) = NaN \<and> series_max (cells c) = NaN"
    using series_min_max_none [of "cells c"] by blast
  have extremes: "present (cells c) \<noteq> [] \<longrightarrow>
      series_min (cells c) \<in> set (present (cells c)) \<and>
      (\<forall>m\<in>set (present (cells c)). num_val (series_min (cells c)) \<le> num_val m) \<and>
      series_max (cells c) \<in> set (present (cells c)) \<and>
      (\<forall>m\<in>set (present (cells c)). num_val m \<le> num_val (series_max (cells c)))"
    using series_min_least [of "cells c"] series_max_greatest [of "cells c"] by blast
  from empty entries rounded none extremes int_column_stats float_column_stats
    unsorted_table_stats round2_examples
  show ?thesis by blast
qed

theorem statistics_of_numeric_columns_witness:
  "get_basic_statistics [] = Map.empty \<and>
   \<not> df_empty coded_table \<and> distinct (columns coded_table) \<and>
   get_basic_statistics coded_table (Lbl ''Code'') = None \<and>
   get_basic_statistics coded_table (Lbl ''Note'') = None \<and>
   get_basic_statistics coded_table (Lbl ''Share'') =
     Some \<lparr>mean = F (25 / 2), median = F (25 / 2), stat_min = F (25 / 2),
           stat_max = F (25 / 2), std = NaN, count = 1\<rparr>"
proof -
  have e: "\<not> df_empty coded_table"
    by (simp add: coded_table_def df_empty_def)
  have d: "distinct (columns coded_table)"
    by (simp add: coded_table_def columns_def)
  have s: "\<forall>c\<in>set coded_table. is_numeric_dtype (dtype c) \<longrightarrow> (\<exists>n. label c = Lbl n)"
    by (simp add: coded_table_def)
  have g: "get_basic_statistics coded_table l =
        (case get_col coded_table l of
           None \<Rightarrow> None
         | Some c \<Rightarrow> if selected c then Some (describe c) else None)" for l
    using statistics_of_numeric_columns [of coded_table l] e d s by blast
  have "get_basic_statistics [] = Map.empty"
    using statistics_of_numeric_columns [of "[]"] by (simp add: df_empty_def)
  moreover have "get_basic_statistics coded_table (Lbl ''Code'') = None"
    by (simp add: g) (simp add: coded_table_def selected_def lower_Code)
  moreover have "get_basic_statistics coded_table (Lbl ''Note'') = None"
    by (simp add: g) (simp add: coded_table_def selected_def is_numeric_dtype_def)
  moreover have "get_basic_statistics coded_table (Lbl ''Share'') =
     Some \<lparr>mean = F (25 / 2), median = F (25 / 2), stat_min = F (25 / 2),
           stat_max = F (25 / 2), std = NaN, count = 1\<rparr>"
    by (simp add: coded_table_stats)
  ultimately show ?thesis using e d by simp
qed

text \<open>
  The claim as stated fails when a numeric column has a label that is not a string:
  the column "Value" is numeric-typed and not named "code", the table is not empty,
  and the record has no entry for it.
\<close>

theorem numeric_header_loses_entries:
  "\<not> df_empty year_label_table \<and> distinct (columns year_label_table) \<and>
   label (year_label_table ! 0) = Lbl ''Value'' \<and> selected (year_label_table ! 0) \<and>
   get_basic_statistics year_label_table (Lbl ''Value'') = None"
  by (simp add: year_label_table_def df_empty_def columns_def selected_def is_numeric_dtype_def
      py_lower_def lower_char_def get_basic_statistics_def)

text \<open>
  Claim C6. A failure inside the \<^verbatim>\<open>try\<close> block discards the whole record: when one
  numeric column has a label without \<^verbatim>\<open>lower()\<close>, the result is the empty record,
  whatever the other columns are. The result is a record in every case; no exception
  reaches the caller.
\<close>

theorem statistics_all_or_nothing:
  assumes "c \<in> set df" and "is_numeric_dtype (dtype c)" and "label c = IntLbl k"
  shows "get_basic_statistics df = Map.empty"
  using numeric_cols_error [OF assms] by (simp add: get_basic_statistics_def)

theorem statistics_all_or_nothing_witness:
  "(\<lparr>label = IntLbl 2020, dtype = Int64, cells = [Num (I 4), Num (I 5), Num (I 6)]\<rparr>
      \<in> set year_label_table) \<and>
   is_numeric_dtype Int64 \<and>
   get_basic_statistics year_label_table = Map.empty \<and>
   get_basic_statistics int_column_table (Lbl ''Value'') \<noteq> None"
proof -
  have m: "\<lparr>label = IntLbl 2020, dtype = Int64, cells = [Num (I 4), Num (I 5), Num (I 6)]\<rparr>
      \<in> set year_label_table"
    by (simp add: year_label_table_def)
  have "get_basic_statistics year_label_table = Map.empty"
    by (rule statistics_all_or_nothing [OF m]) (simp_all add: is_numeric_dtype_def)
  with m show ?thesis
    by (simp add: int_column_stats is_numeric_dtype_def)
qed


section \<open>Total rows of the input\<close>

text \<open>
  A text that is \<^verbatim>\<open>total\<close> once trimmed and lowercased holds no \<^verbatim>\<open>,\<close> and no
  \<^verbatim>\<open>%\<close>, so the loop leaves it as it is: a Total row of the input is a Total row of
  the cleaned table.
\<close>

lemma strip_front_set: "set s \<subseteq> set (strip_front ws s) \<union> \<Union> (set ` set ws)"
proof (induction ws s rule: strip_front.induct)
  case (1 ws)
  then show ?case by simp
next
  case (2 ws c cs)
  show ?case
  proof (cases "List.find (\<lambda>w. w \<noteq> [] \<and> take (length w) (c # cs) = w) ws")
    case None
    then show ?thesis by auto
  next
    case (Some w)
    then have w: "w \<in> set ws" "w \<noteq> []" "take (length w) (c # cs) = w"
      by (auto simp: find_Some_iff)
    have "c # cs = take (length w) (c # cs) @ drop (length w) (c # cs)" by simp
    also have "drop (length w) (c # cs) = drop (length w - 1) cs"
      using w(2) by (cases w) simp_all
    finally have "set (c # cs) = set w \<union> set (drop (length w - 1) cs)"
      using w(3) by (metis set_append)
    with 2 [OF Some] w(1) Some show ?thesis by auto
  qed
qed

lemma strip_set:
  "x \<in> set s \<Longrightarrow> x \<in> \<Union> (set ` set whitespace) \<or> x \<in> set (py_strip s)"
proof -
  assume x: "x \<in> set s"
  have r: "\<Union> (set ` set (map rev whitespace)) = \<Union> (set ` set whitespace)" by simp
  show ?thesis
  proof (cases "x \<in> \<Union> (set ` set whitespace)")
    case False
    with x strip_front_set [of s whitespace]
    have "x \<in> set (rev (strip_front whitespace s))" by auto
    with strip_front_set [of "rev (strip_front whitespace s)" "map rev whitespace"] False r
    show ?thesis unfolding py_strip_def by auto
  qed simp
qed

lemma total_text_unchanged:
  assumes "py_lower (py_strip s) = ''total''"
  shows "stripped L (Str s) = s"
proof -
  have "x \<noteq> CHR '','' \<and> x \<noteq> CHR ''%''" if "x \<in> set s" for x
  proof -
    from strip_set [OF that] show ?thesis
    proof
      assume "x \<in> \<Union> (set ` set whitespace)"
      then show ?thesis by (auto simp: whitespace_def)
    next
      assume "x \<in> set (py_strip s)"
      then have "lower_char x \<in> set (py_lower (py_strip s))" by (simp add: py_lower_def)
      with assms have "lower_char x \<in> set ''total''" by simp
      then show ?thesis by (auto simp: lower_char_def)
    qed
  qed
  then show ?thesis by (simp add: stripped_def remove_char_def filter_id_conv)
qed

end
